theory Spec2Isabelle
  imports Complex_Main "HOL-Library.AList" "HOL-Library.Monad_Syntax"
begin

section \<open>Lua values and the interpreter state\<close>

text \<open>
  The plugin \<^verbatim>\<open>lua.c\<close> drives a Lua 5.1 interpreter through its C API. The C functions
  that the plugin registers with the interpreter are function pointers; they are named
  by a constructor each. Of the three, \<^verbatim>\<open>uh_lua_recv\<close> is translated below; the two URL
  converters only wrap the host's \<^verbatim>\<open>urldecode\<close> and \<^verbatim>\<open>urlencode\<close> and are not needed.
\<close>

datatype cfunction = Uh_lua_recv | Uh_lua_urldecode | Uh_lua_urlencode

text \<open>
  A \<^verbatim>\<open>lua_Number\<close> is a C double. The model carries the rational the double stands for;
  rounding is not modelled, and no statement below depends on it. A table is the list of
  its entries (no key occurs twice); the plugin never holds two references to one table,
  so tables are values here.
\<close>

datatype lua_value =
    LNil
  | LBoolean bool
  | LNumber rat
  | LString string
  | LCFunction cfunction
  | LFunction nat
  | LTable "(lua_value \<times> lua_value) list"

type_synonym lua_table = "(lua_value \<times> lua_value) list"

definition rawget :: "lua_table \<Rightarrow> lua_value \<Rightarrow> lua_value" where
  "rawget t k = (case map_of t k of None \<Rightarrow> LNil | Some v \<Rightarrow> v)"

text \<open>Storing nil under a key removes the entry, as in Lua.\<close>

definition rawset :: "lua_table \<Rightarrow> lua_value \<Rightarrow> lua_value \<Rightarrow> lua_table" where
  "rawset t k v = (case v of LNil \<Rightarrow> AList.delete k t | _ \<Rightarrow> AList.update k v t)"

text \<open>The calls of the Lua C API that change the interpreter, in the order made.\<close>

datatype api_call =
    Call_newtable
  | Call_getglobal string
  | Call_setglobal string
  | Call_pushvalue int
  | Call_setfield int string
  | Call_pushcfunction cfunction
  | Call_pushstring "string option"
  | Call_pushlstring string
  | Call_pushnumber rat
  | Call_remove int
  | Call_loadfile string
  | Call_pcall lua_value "lua_value list" nat

section \<open>The host server as the plugin sees it\<close>

record config =
  docroot :: "string option"
  lua_handler :: string
  lua_prefix :: string

record client =
  request_version :: int

record path_info =
  pi_name :: "string option"
  pi_phys :: "string option"
  pi_query :: "string option"

text \<open>
  The host's operations table \<^verbatim>\<open>ops\<close>. \<open>create_process\<close> is the value that
  \<^verbatim>\<open>ops->create_process\<close> returns to its caller; \<open>get_process_vars\<close> is the array that
  \<^verbatim>\<open>ops->get_process_vars\<close> returns up to its terminating entry, each entry a name and a
  value that may be a null pointer.
\<close>

record uhttpd_ops =
  path_match :: "string \<Rightarrow> string \<Rightarrow> bool"
  create_process :: "client \<Rightarrow> path_info \<Rightarrow> string \<Rightarrow> bool"
  get_process_vars :: "client \<Rightarrow> path_info \<Rightarrow> (string \<times> string option) list"

text \<open>
  The functions of \<^verbatim>\<open>lua.c\<close> that the plugin hands to the host as function pointers.
\<close>

datatype plugin_fn =
    Fn_check_lua_url
  | Fn_lua_handle_request
  | Fn_lua_main
  | Fn_lua_plugin_init

text \<open>
  \<^verbatim>\<open>struct dispatch_handler\<close>, with the two members that \<^verbatim>\<open>lua_dispatch\<close> initialises; a
  member left out of the initialiser is a null pointer.
\<close>

record dispatch_handler =
  check_url :: "plugin_fn option"
  handle_request :: "plugin_fn option"

text \<open>The calls into the host that have an effect there, with their arguments.\<close>

datatype host_call =
    Host_dispatch_add dispatch_handler
  | Host_create_process client path_info string plugin_fn
  | Host_client_error client int string string "string option list"

text \<open>
  The process that runs the plugin: the stack and the globals of its one interpreter
  (\<^verbatim>\<open>_L\<close>), the API calls made so far, what has been written to the standard
  streams, and the calls made into the host. The head of \<open>stack\<close> is the top of the Lua
  stack (index \<open>-1\<close>).
\<close>

record process =
  stack :: "lua_value list"
  globals :: lua_table
  api_log :: "api_call list"
  out :: string
  err :: string
  host_log :: "host_call list"

definition push :: "lua_value \<Rightarrow> process \<Rightarrow> process" where
  "push v L = L\<lparr>stack := v # stack L\<rparr>"

definition logged :: "api_call \<Rightarrow> process \<Rightarrow> process" where
  "logged c L = L\<lparr>api_log := api_log L @ [c]\<rparr>"

text \<open>
  The position, counted from the top, of a stack index: \<open>-1\<close> is the top, \<open>1\<close> the bottom.
  An index outside the stack has no position.
\<close>

definition stack_pos :: "process \<Rightarrow> int \<Rightarrow> nat option" where
  "stack_pos L i =
     (let n = int (length (stack L)) in
      if 0 < i \<and> i \<le> n then Some (nat (n - i))
      else if i < 0 \<and> - i \<le> n then Some (nat (- i - 1))
      else None)"

text \<open>
  Every API function returns \<open>None\<close> where the C API is used outside its contract (an
  index outside the stack, a field stored into a value that is no table) or where control
  does not come back to the caller. Memory exhaustion inside the API is not modelled.
\<close>

definition lua_newtable :: "process \<Rightarrow> process option" where
  "lua_newtable L = Some (push (LTable []) (logged Call_newtable L))"

definition lua_getglobal :: "string \<Rightarrow> process \<Rightarrow> process option" where
  "lua_getglobal name L =
     Some (push (rawget (globals L) (LString name)) (logged (Call_getglobal name) L))"

definition lua_setglobal :: "string \<Rightarrow> process \<Rightarrow> process option" where
  "lua_setglobal name L =
     (case stack L of
        [] \<Rightarrow> None
      | v # rest \<Rightarrow>
          Some ((logged (Call_setglobal name) L)
                  \<lparr>stack := rest, globals := rawset (globals L) (LString name) v\<rparr>))"

definition lua_pushvalue :: "int \<Rightarrow> process \<Rightarrow> process option" where
  "lua_pushvalue i L =
     (case stack_pos L i of
        None \<Rightarrow> None
      | Some p \<Rightarrow> Some (push (stack L ! p) (logged (Call_pushvalue i) L)))"

text \<open>
  \<^verbatim>\<open>lua_setfield(L, i, k)\<close> stores the value on top of the stack under the key \<open>k\<close> in the
  table at index \<open>i\<close> (an index of the stack before the pop), then pops the value.
\<close>

definition lua_setfield :: "int \<Rightarrow> string \<Rightarrow> process \<Rightarrow> process option" where
  "lua_setfield i k L =
     (case stack_pos L i of
        None \<Rightarrow> None
      | Some p \<Rightarrow>
          (case stack L ! p of
             LTable t \<Rightarrow>
               Some ((logged (Call_setfield i k) L)
                       \<lparr>stack := tl ((stack L)[p := LTable (rawset t (LString k) (hd (stack L)))])\<rparr>)
           | _ \<Rightarrow> None))"

definition lua_pushcfunction :: "cfunction \<Rightarrow> process \<Rightarrow> process option" where
  "lua_pushcfunction f L = Some (push (LCFunction f) (logged (Call_pushcfunction f) L))"

text \<open>\<^verbatim>\<open>lua_pushstring\<close> pushes nil for a null pointer.\<close>

definition lua_pushstring :: "string option \<Rightarrow> process \<Rightarrow> process option" where
  "lua_pushstring s L =
     Some (push (case s of None \<Rightarrow> LNil | Some str \<Rightarrow> LString str)
             (logged (Call_pushstring s) L))"

definition lua_pushlstring :: "string \<Rightarrow> process \<Rightarrow> process option" where
  "lua_pushlstring s L = Some (push (LString s) (logged (Call_pushlstring s) L))"

definition lua_pushnumber :: "rat \<Rightarrow> process \<Rightarrow> process option" where
  "lua_pushnumber q L = Some (push (LNumber q) (logged (Call_pushnumber q) L))"

definition lua_remove :: "int \<Rightarrow> process \<Rightarrow> process option" where
  "lua_remove i L =
     (case stack_pos L i of
        None \<Rightarrow> None
      | Some p \<Rightarrow>
          Some ((logged (Call_remove i) L)
                  \<lparr>stack := take p (stack L) @ drop (Suc p) (stack L)\<rparr>))"

definition lua_isnil :: "process \<Rightarrow> int \<Rightarrow> bool" where
  "lua_isnil L i = (case stack_pos L i of Some p \<Rightarrow> stack L ! p = LNil | None \<Rightarrow> False)"

fun is_function :: "lua_value \<Rightarrow> bool" where
  "is_function (LCFunction f) = True"
| "is_function (LFunction n) = True"
| "is_function v = False"

definition lua_isfunction :: "process \<Rightarrow> int \<Rightarrow> bool" where
  "lua_isfunction L i = (case stack_pos L i of Some p \<Rightarrow> is_function (stack L ! p) | None \<Rightarrow> False)"

subsection \<open>The Lua runtime as the plugin sees it\<close>

text \<open>
  What the interpreter does with a script is no part of the plugin. It is a parameter:
  \<^item> \<open>stdlib\<close>: the globals that \<^verbatim>\<open>luaL_openlibs\<close> installs (among them \<^verbatim>\<open>print\<close>);
  \<^item> \<open>loadfile\<close>: the status of \<^verbatim>\<open>luaL_loadfile\<close> on a path and the value it pushes (the
    compiled chunk, or the error message);
  \<^item> \<open>interp\<close>: what a protected call of a function on its arguments does, given the
    globals: \<open>None\<close> when the call never returns to C (it loops, or ends the process
    itself), otherwise the status, the results or the error value, the globals it
    leaves and the text it wrote to standard output;
  \<^item> \<open>num2str\<close>, \<open>str2d\<close>: Lua's conversions between numbers and strings.
\<close>

record call_outcome =
  co_status :: int
  co_results :: "lua_value list"
  co_value :: lua_value
  co_globals :: lua_table
  co_stdout :: string

record lua_runtime =
  stdlib :: lua_table
  loadfile :: "string \<Rightarrow> int \<times> lua_value"
  interp :: "lua_value \<Rightarrow> lua_value list \<Rightarrow> lua_table \<Rightarrow> call_outcome option"
  num2str :: "rat \<Rightarrow> string"
  str2d :: "string \<Rightarrow> rat option"

definition LUA_ERRRUN :: int where "LUA_ERRRUN = 2"
definition LUA_ERRSYNTAX :: int where "LUA_ERRSYNTAX = 3"
definition LUA_ERRMEM :: int where "LUA_ERRMEM = 4"
definition LUA_ERRERR :: int where "LUA_ERRERR = 5"

definition EXIT_FAILURE :: int where "EXIT_FAILURE = 1"

text \<open>\<^verbatim>\<open>lua_open(); luaL_openlibs(L)\<close>: a fresh interpreter with the standard globals.\<close>

definition lua_open :: "lua_runtime \<Rightarrow> process \<Rightarrow> process" where
  "lua_open rt P = P\<lparr>stack := [], globals := stdlib rt\<rparr>"

text \<open>\<^verbatim>\<open>luaL_loadfile\<close> pushes one value whatever the status is.\<close>

definition luaL_loadfile :: "lua_runtime \<Rightarrow> string \<Rightarrow> process \<Rightarrow> int \<times> process" where
  "luaL_loadfile rt path L =
     (fst (loadfile rt path), push (snd (loadfile rt path)) (logged (Call_loadfile path) L))"

text \<open>
  \<^verbatim>\<open>lua_pcall(L, nargs, nresults, 0)\<close> pops the function and its arguments. With status 0
  it pushes the results, adjusted to \<open>nresults\<close>, the first one deepest; with any other
  status it pushes the error value alone.
\<close>

definition adjust_results :: "nat \<Rightarrow> lua_value list \<Rightarrow> lua_value list" where
  "adjust_results n rs = take n (rs @ replicate n LNil)"

definition lua_pcall :: "lua_runtime \<Rightarrow> nat \<Rightarrow> nat \<Rightarrow> process \<Rightarrow> (int \<times> process) option" where
  "lua_pcall rt nargs nresults L =
     (if length (stack L) \<le> nargs then None
      else
        let args = rev (take nargs (stack L));
            f = stack L ! nargs;
            rest = drop (Suc nargs) (stack L)
        in case interp rt f args (globals L) of
             None \<Rightarrow> None
           | Some co \<Rightarrow>
               Some (co_status co,
                     (logged (Call_pcall f args nresults) L)
                       \<lparr>stack := (if co_status co = 0
                                  then rev (adjust_results nresults (co_results co))
                                  else [co_value co]) @ rest,
                        globals := co_globals co,
                        out := out L @ co_stdout co\<rparr>))"

text \<open>
  \<^verbatim>\<open>lua_tostring\<close>: a string as it is, a number converted, a null pointer for anything
  else.
\<close>

fun tostring :: "lua_runtime \<Rightarrow> lua_value \<Rightarrow> string option" where
  "tostring rt (LString s) = Some s"
| "tostring rt (LNumber q) = Some (num2str rt q)"
| "tostring rt v = None"

definition lua_tostring :: "lua_runtime \<Rightarrow> process \<Rightarrow> int \<Rightarrow> string option" where
  "lua_tostring rt L i = (case stack_pos L i of Some p \<Rightarrow> tostring rt (stack L ! p) | None \<Rightarrow> None)"

section \<open>The C library\<close>

text \<open>
  \<^verbatim>\<open>printf\<close> with the one conversion the plugin uses, \<^verbatim>\<open>%s\<close>. A null pointer for \<^verbatim>\<open>%s\<close>
  is undefined in C; the C libraries the server is built against print \<^verbatim>\<open>(null)\<close>, and
  so does the model.
\<close>

fun c_printf :: "string \<Rightarrow> string option list \<Rightarrow> string" where
  "c_printf [] as = []"
| "c_printf [c] as = [c]"
| "c_printf (c # d # fmt) as =
     (if c = CHR ''%'' \<and> d = CHR ''s'' then
        (case as of
           [] \<Rightarrow> c_printf fmt []
         | a # as' \<Rightarrow> (case a of None \<Rightarrow> ''(null)'' | Some s \<Rightarrow> s) @ c_printf fmt as')
      else c # c_printf (d # fmt) as)"

definition printf :: "string \<Rightarrow> string option list \<Rightarrow> process \<Rightarrow> process" where
  "printf fmt as P = P\<lparr>out := out P @ c_printf fmt as\<rparr>"

definition fprintf_stderr :: "string \<Rightarrow> string option list \<Rightarrow> process \<Rightarrow> process" where
  "fprintf_stderr fmt as P = P\<lparr>err := err P @ c_printf fmt as\<rparr>"

text \<open>\<^verbatim>\<open>strchr\<close>: the offset of the first occurrence of a character, if there is one.\<close>

fun strchr :: "string \<Rightarrow> char \<Rightarrow> nat option" where
  "strchr [] c = None"
| "strchr (x # xs) c = (if x = c then Some 0 else map_option Suc (strchr xs c))"

section \<open>Errors raised outside a protected call\<close>

fun typename :: "lua_value \<Rightarrow> string" where
  "typename LNil = ''nil''"
| "typename (LBoolean b) = ''boolean''"
| "typename (LNumber q) = ''number''"
| "typename (LString s) = ''string''"
| "typename (LCFunction f) = ''function''"
| "typename (LFunction n) = ''function''"
| "typename (LTable t) = ''table''"

text \<open>
  \<^verbatim>\<open>luaL_checkstring(L, i)\<close> returns the string at index \<open>i\<close>, converting a number in
  place; for any other value it raises a Lua error. \<open>Inl\<close> is the raised message.
\<close>

definition luaL_checkstring :: "lua_runtime \<Rightarrow> process \<Rightarrow> int \<Rightarrow> string + string \<times> process" where
  "luaL_checkstring rt L i =
     (case stack_pos L i of
        None \<Rightarrow> Inl ''bad argument (string expected, got no value)''
      | Some p \<Rightarrow>
          (case tostring rt (stack L ! p) of
             None \<Rightarrow> Inl (''bad argument #-1 (string expected, got '' @ typename (stack L ! p) @ '')'')
           | Some s \<Rightarrow> Inr (s, L\<lparr>stack := (stack L)[p := LString s]\<rparr>)))"

text \<open>
  An error raised while no protected call is active: the interpreter created by
  \<^verbatim>\<open>lua_open\<close> runs its panic function, which writes to standard error, and then calls
  \<^verbatim>\<open>exit(EXIT_FAILURE)\<close>. The result is the exit status and the process as it ends.
\<close>

definition lua_panic :: "string \<Rightarrow> process \<Rightarrow> int \<times> process" where
  "lua_panic msg L =
     (EXIT_FAILURE,
      fprintf_stderr (''PANIC: unprotected error in call to Lua API (%s)'' @ [CHR 0x0A]) [Some msg] L)"

section \<open>The plugin\<close>

definition UH_LUA_CB :: string where
  "UH_LUA_CB = ''handle_request''"

subsection \<open>\<^verbatim>\<open>uh_lua_state_init\<close>\<close>

text \<open>Lines 138 to 162: the table \<^verbatim>\<open>uhttpd\<close> that the script sees.\<close>

definition uh_lua_api_table :: "config \<Rightarrow> process \<Rightarrow> process option" where
  "uh_lua_api_table conf L =
     lua_newtable L
       \<bind> lua_getglobal ''print''
       \<bind> lua_pushvalue (- 1)
       \<bind> lua_setfield (- 3) ''send''
       \<bind> lua_setfield (- 2) ''sendc''
       \<bind> lua_pushcfunction Uh_lua_recv
       \<bind> lua_setfield (- 2) ''recv''
       \<bind> lua_pushcfunction Uh_lua_urldecode
       \<bind> lua_setfield (- 2) ''urldecode''
       \<bind> lua_pushcfunction Uh_lua_urlencode
       \<bind> lua_setfield (- 2) ''urlencode''
       \<bind> lua_pushstring (docroot conf)
       \<bind> lua_setfield (- 2) ''docroot''
       \<bind> lua_setglobal ''uhttpd''"

text \<open>The label \<^verbatim>\<open>error:\<close> of \<^verbatim>\<open>uh_lua_state_init\<close>: report, then \<^verbatim>\<open>exit(1)\<close>.\<close>

definition init_error :: "lua_runtime \<Rightarrow> string \<Rightarrow> process \<Rightarrow> int \<times> process" where
  "init_error rt status L =
     (let msg = (if \<not> lua_isnil L (- 1) then lua_tostring rt L (- 1) else Some ''(unknown error)'')
      in (1, fprintf_stderr (''Error %s Lua handler: %s'' @ [CHR 0x0A]) [Some status, msg] L))"

text \<open>
  \<open>Inl (status, P)\<close>: the process ended inside the function with that exit status;
  \<open>Inr L\<close>: the function returned the interpreter.
\<close>

definition uh_lua_state_init ::
  "lua_runtime \<Rightarrow> config \<Rightarrow> process \<Rightarrow> (int \<times> process + process) option" where
  "uh_lua_state_init rt conf P =
     (case uh_lua_api_table conf (lua_open rt P) of
        None \<Rightarrow> None
      | Some L1 \<Rightarrow>
          (case luaL_loadfile rt (lua_handler conf) L1 of
             (ret, L2) \<Rightarrow>
               if ret \<noteq> 0 then Some (Inl (init_error rt ''loading'' L2))
               else
                 (case lua_pcall rt 0 0 L2 of
                    None \<Rightarrow> None
                  | Some (ret', L3) \<Rightarrow>
                      if ret' \<noteq> 0 then Some (Inl (init_error rt ''initializing'' L3))
                      else
                        (case lua_getglobal UH_LUA_CB L3 of
                           None \<Rightarrow> None
                         | Some L4 \<Rightarrow>
                             if \<not> lua_isfunction L4 (- 1)
                             then Some (Inl (1, fprintf_stderr
                                    (''Error: Lua handler provides no handle_request() callback.''
                                       @ [CHR 0x0A]) [] L4))
                             else Some (Inr L4)))))"

subsection \<open>\<^verbatim>\<open>lua_main\<close>\<close>

text \<open>Lines 206 to 212: the length of the path and the query string.\<close>

definition path_len :: "string \<Rightarrow> nat" where
  "path_len url = (case strchr url CHR ''?'' of None \<Rightarrow> length url | Some off \<Rightarrow> off)"

definition set_query :: "string \<Rightarrow> path_info \<Rightarrow> path_info" where
  "set_query url pinfo =
     (case strchr url CHR ''?'' of None \<Rightarrow> pinfo | Some off \<Rightarrow> pinfo\<lparr>pi_query := Some (drop off url)\<rparr>)"

text \<open>Lines 213 to 217.\<close>

definition set_path_info :: "config \<Rightarrow> string \<Rightarrow> process \<Rightarrow> process option" where
  "set_path_info conf url L =
     (let prefix_len = length (lua_prefix conf) in
      if path_len url > prefix_len
      then lua_pushlstring (take (path_len url - prefix_len) (drop prefix_len url)) L
             \<bind> lua_setfield (- 2) ''PATH_INFO''
      else Some L)"

text \<open>Lines 219 to 225: the loop over the host's variables; a null value is skipped.\<close>

fun push_process_vars :: "(string \<times> string option) list \<Rightarrow> process \<Rightarrow> process option" where
  "push_process_vars [] L = Some L"
| "push_process_vars ((name, None) # vars) L = push_process_vars vars L"
| "push_process_vars ((name, Some v) # vars) L =
     lua_pushstring (Some v) L \<bind> lua_setfield (- 2) name \<bind> push_process_vars vars"

text \<open>Lines 227 and 228.\<close>

definition set_http_version :: "client \<Rightarrow> process \<Rightarrow> process option" where
  "set_http_version cl L =
     lua_pushnumber (9 / 10 + of_int (request_version cl) / 10) L
       \<bind> lua_setfield (- 2) ''HTTP_VERSION''"

text \<open>Lines 201 to 228: the callback and, above it, the environment table.\<close>

definition lua_main_env ::
  "uhttpd_ops \<Rightarrow> config \<Rightarrow> client \<Rightarrow> path_info \<Rightarrow> string \<Rightarrow> process \<Rightarrow> process option" where
  "lua_main_env ops conf cl pinfo url L =
     lua_getglobal UH_LUA_CB L
       \<bind> lua_newtable
       \<bind> set_path_info conf url
       \<bind> push_process_vars (get_process_vars ops cl (set_query url pinfo))
       \<bind> set_http_version cl"

definition error_500 :: string where
  "error_500 =
     ''Status: 500 Internal Server Error'' @ [CHR 0x0D, CHR 0x0A, CHR 0x0D, CHR 0x0A]
       @ ''Unable to launch the requested Lua program:'' @ [CHR 0x0A]
       @ ''  %s: %s'' @ [CHR 0x0A]"

text \<open>
  \<^verbatim>\<open>lua_main\<close> never returns: the result is the exit status of the process, the
  \<^verbatim>\<open>path_info\<close> as the function leaves it, and the process as it ends. \<open>errstr\<close> is
  \<^verbatim>\<open>strerror(errno)\<close> at line 239.
\<close>

definition lua_main ::
  "lua_runtime \<Rightarrow> uhttpd_ops \<Rightarrow> config \<Rightarrow> string \<Rightarrow> client \<Rightarrow> path_info \<Rightarrow> string \<Rightarrow> process
     \<Rightarrow> (int \<times> path_info \<times> process) option" where
  "lua_main rt ops conf errstr cl pinfo url L =
     (case lua_main_env ops conf cl pinfo url L \<bind> lua_pcall rt 1 0 of
        None \<Rightarrow> None
      | Some (ret, L') \<Rightarrow>
          if ret = LUA_ERRMEM \<or> ret = LUA_ERRRUN then
            (case luaL_checkstring rt L' (- 1) of
               Inl msg \<Rightarrow> Some (fst (lua_panic msg L'), set_query url pinfo, snd (lua_panic msg L'))
             | Inr (error, L'') \<Rightarrow>
                 Some (0, set_query url pinfo,
                       printf error_500 [pi_phys (set_query url pinfo), Some errstr] L''))
          else Some (0, set_query url pinfo, L'))"

subsection \<open>\<^verbatim>\<open>lua_handle_request\<close>, \<^verbatim>\<open>check_lua_url\<close>, \<^verbatim>\<open>lua_plugin_init\<close>\<close>

definition host_called :: "host_call \<Rightarrow> process \<Rightarrow> process" where
  "host_called c P = P\<lparr>host_log := host_log P @ [c]\<rparr>"

text \<open>
  \<open>spi\<close> is the static \<^verbatim>\<open>_pi\<close>; the function returns it as it leaves it. \<open>errstr\<close> is
  \<^verbatim>\<open>strerror(errno)\<close> at line 255.
\<close>

definition lua_handle_request ::
  "uhttpd_ops \<Rightarrow> config \<Rightarrow> string \<Rightarrow> path_info \<Rightarrow> client \<Rightarrow> string \<Rightarrow> process
     \<Rightarrow> path_info \<times> process" where
  "lua_handle_request ops conf errstr spi cl url P =
     (let pinfo = spi\<lparr>pi_name := Some (lua_prefix conf), pi_phys := Some (lua_handler conf)\<rparr>;
          P' = host_called (Host_create_process cl pinfo url Fn_lua_main) P
      in if \<not> create_process ops cl pinfo url
         then (pinfo, host_called
                 (Host_client_error cl 500 ''Internal Server Error''
                    ''Failed to create CGI process: %s'' [Some errstr]) P')
         else (pinfo, P'))"

definition check_lua_url :: "uhttpd_ops \<Rightarrow> config \<Rightarrow> string \<Rightarrow> bool" where
  "check_lua_url ops conf url = path_match ops (lua_prefix conf) url"

definition lua_dispatch :: dispatch_handler where
  "lua_dispatch = \<lparr>check_url = Some Fn_check_lua_url, handle_request = Some Fn_lua_handle_request\<rparr>"

text \<open>
  \<open>Inl\<close>: the process ended inside \<^verbatim>\<open>uh_lua_state_init\<close>; \<open>Inr (r, P)\<close>: the function
  returned \<open>r\<close>, with the interpreter \<^verbatim>\<open>_L\<close> in \<open>P\<close>.
\<close>

definition lua_plugin_init ::
  "lua_runtime \<Rightarrow> uhttpd_ops \<Rightarrow> config \<Rightarrow> process \<Rightarrow> (int \<times> process + int \<times> process) option" where
  "lua_plugin_init rt ops conf P =
     (case uh_lua_state_init rt conf P of
        None \<Rightarrow> None
      | Some (Inl ex) \<Rightarrow> Some (Inl ex)
      | Some (Inr L) \<Rightarrow> Some (Inr (0, host_called (Host_dispatch_add lua_dispatch) L)))"

subsection \<open>\<^verbatim>\<open>uh_lua_recv\<close>\<close>

text \<open>
  What the kernel answers to the loop. Each element is the outcome of one \<^verbatim>\<open>read\<close> on
  the descriptor: the bytes it delivered (none at end of file), or its \<^verbatim>\<open>errno\<close>
  together with the outcome of the \<^verbatim>\<open>poll\<close> that follows when the loop calls it (the
  loop calls \<^verbatim>\<open>poll\<close> only after \<^verbatim>\<open>EWOULDBLOCK\<close> or \<^verbatim>\<open>EAGAIN\<close>). A \<^verbatim>\<open>poll\<close> that succeeds
  or times out says whether \<^verbatim>\<open>POLLIN\<close> is set and leaves \<^verbatim>\<open>errno\<close> alone; a \<^verbatim>\<open>poll\<close> that
  fails leaves \<^verbatim>\<open>revents\<close> at the 0 stored in line 59 and sets \<^verbatim>\<open>errno\<close>.
\<close>

datatype errno = EAGAIN | EWOULDBLOCK | EINTR | EIO | EBADF | EINVAL | ENOMEM

datatype poll_result = Poll_revents bool | Poll_failed errno

datatype read_result = Read_bytes string | Read_failed errno poll_result

text \<open>
  How a run ends: \<open>Unfinished\<close> when the loop asks for another \<^verbatim>\<open>read\<close> and the list of
  kernel answers is used up, \<open>Undefined\<close> when C leaves the behaviour undefined (signed
  overflow, a double outside the range of \<^verbatim>\<open>int\<close>).
\<close>

datatype 'a run = Unfinished | Undefined | Finished 'a

definition INT_MAX :: int where "INT_MAX = 2147483647"
definition INT_MIN :: int where "INT_MIN = - 2147483648"

definition STDIN_FILENO :: int where "STDIN_FILENO = 0"

text \<open>\<^verbatim>\<open>errno\<close> at line 64, after the \<^verbatim>\<open>poll\<close> if there was one.\<close>

fun errno_at_64 :: "errno \<Rightarrow> poll_result \<Rightarrow> errno" where
  "errno_at_64 e (Poll_failed e') = (if e = EWOULDBLOCK \<or> e = EAGAIN then e' else e)"
| "errno_at_64 e (Poll_revents b) = e"

text \<open>
  The loop of lines 52 to 78, over the kernel's answers. \<open>bufsize\<close> is
  \<^verbatim>\<open>LUAL_BUFFERSIZE\<close>, \<open>B\<close> the content of the \<^verbatim>\<open>luaL_Buffer\<close>. The result is the buffer and
  \<^verbatim>\<open>data_len\<close> when the loop is left.
\<close>

fun uh_lua_recv_loop ::
  "nat \<Rightarrow> int \<Rightarrow> string \<Rightarrow> int \<Rightarrow> read_result list \<Rightarrow> (string \<times> int) run" where
  "uh_lua_recv_loop bufsize len B data_len [] =
     (if len > 0 then Unfinished else Finished (B, data_len))"
| "uh_lua_recv_loop bufsize len B data_len (Read_failed e p # evs) =
     (if len > 0 then
        if (e = EWOULDBLOCK \<or> e = EAGAIN) \<and> p = Poll_revents True
        then uh_lua_recv_loop bufsize len B data_len evs
        else if errno_at_64 e p = EINTR
        then uh_lua_recv_loop bufsize len B data_len evs
        else Finished (B, if data_len = 0 then - 1 else data_len)
      else Finished (B, data_len))"
| "uh_lua_recv_loop bufsize len B data_len (Read_bytes bytes # evs) =
     (if len > 0 then
        if bytes = [] then Finished (B, data_len)
        else if data_len + int (length bytes) > INT_MAX then Undefined
        else if length bytes \<noteq> bufsize
        then Finished (B @ bytes, data_len + int (length bytes))
        else uh_lua_recv_loop bufsize len (B @ bytes) (data_len + int (length bytes)) evs
      else Finished (B, data_len))"

text \<open>
  \<^verbatim>\<open>luaL_checknumber(L, i)\<close>: the number at index \<open>i\<close>, a string converted; \<open>Inl\<close> is the
  message of the error it raises otherwise.
\<close>

fun tonumber :: "lua_runtime \<Rightarrow> lua_value \<Rightarrow> rat option" where
  "tonumber rt (LNumber q) = Some q"
| "tonumber rt (LString s) = str2d rt s"
| "tonumber rt v = None"

definition luaL_checknumber :: "lua_runtime \<Rightarrow> process \<Rightarrow> int \<Rightarrow> string + rat" where
  "luaL_checknumber rt L i =
     (case stack_pos L i of
        None \<Rightarrow> Inl ''number expected, got no value''
      | Some p \<Rightarrow>
          (case tonumber rt (stack L ! p) of
             None \<Rightarrow> Inl (''number expected, got '' @ typename (stack L ! p))
           | Some q \<Rightarrow> Inr q))"

text \<open>The conversion of a double to \<^verbatim>\<open>int\<close> in line 50: towards zero, undefined out of range.\<close>

definition int_of_double :: "rat \<Rightarrow> int option" where
  "int_of_double q =
     (let t = (if q < 0 then \<lceil>q\<rceil> else \<lfloor>q\<rfloor>)
      in if INT_MIN \<le> t \<and> t \<le> INT_MAX then Some t else None)"

text \<open>\<^verbatim>\<open>luaL_pushresult\<close> leaves the content of the buffer on the stack, as one string.\<close>

definition luaL_pushresult :: "string \<Rightarrow> process \<Rightarrow> process option" where
  "luaL_pushresult B L = lua_pushlstring B L"

text \<open>
  Lines 80 to 89. The values a C function returns to Lua are the topmost ones, the
  first result deepest.
\<close>

definition uh_lua_recv_results :: "string \<Rightarrow> int \<Rightarrow> process \<Rightarrow> lua_value list option" where
  "uh_lua_recv_results B data_len L =
     (if data_len > 0
      then map_option (\<lambda>L'. rev (take 2 (stack L')))
             (luaL_pushresult B L \<bind> lua_pushnumber (of_int data_len)
                \<bind> lua_pushvalue (- 2) \<bind> lua_remove (- 3))
      else map_option (\<lambda>L'. rev (take 1 (stack L')))
             (luaL_pushresult B L \<bind> lua_pushnumber (of_int data_len)
                \<bind> lua_remove (- 2)))"

text \<open>
  \<open>answers fd\<close> is what the kernel answers on descriptor \<open>fd\<close>. \<open>Inl\<close> is the message of
  a Lua error raised by the function, \<open>Inr\<close> the values it returns.
\<close>

definition uh_lua_recv ::
  "lua_runtime \<Rightarrow> nat \<Rightarrow> (int \<Rightarrow> read_result list) \<Rightarrow> process \<Rightarrow> (string + lua_value list) run" where
  "uh_lua_recv rt bufsize answers L =
     (case luaL_checknumber rt L 1 of
        Inl msg \<Rightarrow> Finished (Inl msg)
      | Inr q \<Rightarrow>
          (case int_of_double q of
             None \<Rightarrow> Undefined
           | Some len \<Rightarrow>
               (case uh_lua_recv_loop bufsize len [] 0 (answers STDIN_FILENO) of
                  Unfinished \<Rightarrow> Unfinished
                | Undefined \<Rightarrow> Undefined
                | Finished (B, data_len) \<Rightarrow>
                    (case uh_lua_recv_results B data_len L of
                       None \<Rightarrow> Undefined
                     | Some vs \<Rightarrow> Finished (Inr vs)))))"

section \<open>What the code computes, in closed form\<close>

text \<open>
  The functions of this section are not translations of code: they name the effect of
  a stretch of the code, and each is proved equal to what the code does below.
\<close>

text \<open>The table that lines 138 to 160 build, and the API calls they make.\<close>

definition api_table :: "lua_runtime \<Rightarrow> config \<Rightarrow> lua_table" where
  "api_table rt conf =
     rawset (rawset (rawset (rawset (rawset (rawset []
       (LString ''send'') (rawget (stdlib rt) (LString ''print'')))
       (LString ''sendc'') (rawget (stdlib rt) (LString ''print'')))
       (LString ''recv'') (LCFunction Uh_lua_recv))
       (LString ''urldecode'') (LCFunction Uh_lua_urldecode))
       (LString ''urlencode'') (LCFunction Uh_lua_urlencode))
       (LString ''docroot'') (case docroot conf of None \<Rightarrow> LNil | Some d \<Rightarrow> LString d)"

definition api_table_calls :: "config \<Rightarrow> api_call list" where
  "api_table_calls conf =
     [Call_newtable, Call_getglobal ''print'', Call_pushvalue (- 1),
      Call_setfield (- 3) ''send'', Call_setfield (- 2) ''sendc'',
      Call_pushcfunction Uh_lua_recv, Call_setfield (- 2) ''recv'',
      Call_pushcfunction Uh_lua_urldecode, Call_setfield (- 2) ''urldecode'',
      Call_pushcfunction Uh_lua_urlencode, Call_setfield (- 2) ''urlencode'',
      Call_pushstring (docroot conf), Call_setfield (- 2) ''docroot'',
      Call_setglobal ''uhttpd'']"

text \<open>The path of a URL in the words of the specification: the URL up to its first \<^verbatim>\<open>?\<close>.\<close>

definition path_portion :: "string \<Rightarrow> string" where
  "path_portion url = takeWhile (\<lambda>c. c \<noteq> CHR ''?'') url"

text \<open>The environment table after lines 213 to 217, after the loop, and at the call.\<close>

definition path_info_table :: "config \<Rightarrow> string \<Rightarrow> lua_table" where
  "path_info_table conf url =
     (if path_len url > length (lua_prefix conf)
      then rawset [] (LString ''PATH_INFO'')
             (LString (take (path_len url - length (lua_prefix conf))
                         (drop (length (lua_prefix conf)) url)))
      else [])"

definition path_info_calls :: "config \<Rightarrow> string \<Rightarrow> api_call list" where
  "path_info_calls conf url =
     (if path_len url > length (lua_prefix conf)
      then [Call_pushlstring (take (path_len url - length (lua_prefix conf))
                                (drop (length (lua_prefix conf)) url)),
            Call_setfield (- 2) ''PATH_INFO'']
      else [])"

fun vars_table :: "(string \<times> string option) list \<Rightarrow> lua_table \<Rightarrow> lua_table" where
  "vars_table [] t = t"
| "vars_table ((name, None) # vars) t = vars_table vars t"
| "vars_table ((name, Some v) # vars) t = vars_table vars (rawset t (LString name) (LString v))"

fun vars_calls :: "(string \<times> string option) list \<Rightarrow> api_call list" where
  "vars_calls [] = []"
| "vars_calls ((name, None) # vars) = vars_calls vars"
| "vars_calls ((name, Some v) # vars) =
     Call_pushstring (Some v) # Call_setfield (- 2) name # vars_calls vars"

definition http_version :: "client \<Rightarrow> rat" where
  "http_version cl = 9 / 10 + of_int (request_version cl) / 10"

definition env_table :: "uhttpd_ops \<Rightarrow> config \<Rightarrow> client \<Rightarrow> path_info \<Rightarrow> string \<Rightarrow> lua_table" where
  "env_table ops conf cl pinfo url =
     rawset (vars_table (get_process_vars ops cl (set_query url pinfo)) (path_info_table conf url))
       (LString ''HTTP_VERSION'') (LNumber (http_version cl))"

definition env_calls :: "uhttpd_ops \<Rightarrow> config \<Rightarrow> client \<Rightarrow> path_info \<Rightarrow> string \<Rightarrow> api_call list" where
  "env_calls ops conf cl pinfo url =
     path_info_calls conf url
       @ vars_calls (get_process_vars ops cl (set_query url pinfo))
       @ [Call_pushnumber (http_version cl), Call_setfield (- 2) ''HTTP_VERSION'']"

fun is_string :: "lua_value \<Rightarrow> bool" where
  "is_string (LString s) = True"
| "is_string v = False"

fun is_number :: "lua_value \<Rightarrow> bool" where
  "is_number (LNumber q) = True"
| "is_number v = False"

fun is_loadfile :: "api_call \<Rightarrow> bool" where
  "is_loadfile (Call_loadfile path) = True"
| "is_loadfile c = False"

fun is_pcall :: "api_call \<Rightarrow> bool" where
  "is_pcall (Call_pcall f args n) = True"
| "is_pcall c = False"

text \<open>
  The answers of the kernel by what the loop of \<^verbatim>\<open>uh_lua_recv\<close> does on them. A failed
  \<^verbatim>\<open>read\<close> is retried when it failed with \<^verbatim>\<open>EINTR\<close>, or when it failed with \<^verbatim>\<open>EWOULDBLOCK\<close> or
  \<^verbatim>\<open>EAGAIN\<close> and the \<^verbatim>\<open>poll\<close> that follows reports data or is itself interrupted
  (\<^verbatim>\<open>EINTR\<close>).
\<close>

fun retried :: "read_result \<Rightarrow> bool" where
  "retried (Read_failed e p) =
     (e = EINTR \<or> ((e = EWOULDBLOCK \<or> e = EAGAIN) \<and> (p = Poll_revents True \<or> p = Poll_failed EINTR)))"
| "retried (Read_bytes bytes) = False"

fun continues :: "nat \<Rightarrow> read_result \<Rightarrow> bool" where
  "continues bufsize (Read_bytes bytes) = (bytes \<noteq> [] \<and> length bytes = bufsize)"
| "continues bufsize (Read_failed e p) = retried (Read_failed e p)"

text \<open>End of file, a read shorter than the buffer, or a failed read that is not retried.\<close>

fun stops :: "nat \<Rightarrow> read_result \<Rightarrow> bool" where
  "stops bufsize (Read_bytes bytes) = (bytes = [] \<or> length bytes < bufsize)"
| "stops bufsize (Read_failed e p) = (\<not> retried (Read_failed e p))"

fun is_failure :: "read_result \<Rightarrow> bool" where
  "is_failure (Read_failed e p) = True"
| "is_failure (Read_bytes bytes) = False"

text \<open>The bytes that a list of answers delivers, in order.\<close>

fun delivered :: "read_result list \<Rightarrow> string" where
  "delivered [] = []"
| "delivered (Read_bytes bytes # evs) = bytes @ delivered evs"
| "delivered (Read_failed e p # evs) = delivered evs"

text \<open>
  What \<^verbatim>\<open>uh_lua_recv\<close> is to return when the reads delivered \<open>data\<close> and the loop was left
  at a failed read (\<open>failed\<close>) or not: the count and then the data, or one number.
\<close>

definition recv_values :: "string \<Rightarrow> bool \<Rightarrow> lua_value list" where
  "recv_values data failed =
     (if data \<noteq> [] then [LNumber (of_int (int (length data))), LString data]
      else if failed then [LNumber (- 1)]
      else [LNumber 0])"

section \<open>Concrete inputs\<close>

text \<open>
  A server configured with the prefix \<^verbatim>\<open>/lua\<close>, a request, and a runtime whose script
  defines \<^verbatim>\<open>handle_request\<close>; calling that function ends with status \<open>st\<close> and, when the
  status is an error, with the error value \<open>v\<close>.
\<close>

definition demo_process :: process where
  "demo_process = \<lparr>stack = [], globals = [], api_log = [], out = [], err = [], host_log = []\<rparr>"

definition demo_conf :: config where
  "demo_conf = \<lparr>docroot = Some ''/www'', lua_handler = ''/www/handler.lua'', lua_prefix = ''/lua''\<rparr>"

definition demo_client :: client where
  "demo_client = \<lparr>request_version = 2\<rparr>"

definition demo_pinfo :: path_info where
  "demo_pinfo = \<lparr>pi_name = Some ''/lua'', pi_phys = Some ''/www/handler.lua'', pi_query = None\<rparr>"

definition demo_vars :: "client \<Rightarrow> path_info \<Rightarrow> (string \<times> string option) list" where
  "demo_vars cl pinfo =
     [(''REQUEST_METHOD'', Some ''GET''), (''REMOTE_USER'', None), (''QUERY_STRING'', pi_query pinfo)]"

definition demo_match :: "string \<Rightarrow> string \<Rightarrow> bool" where
  "demo_match prefix url = (take (length prefix) url = prefix)"

definition demo_no_process :: "client \<Rightarrow> path_info \<Rightarrow> string \<Rightarrow> bool" where
  "demo_no_process cl pinfo url = False"

definition demo_ops :: uhttpd_ops where
  "demo_ops = \<lparr>path_match = demo_match, create_process = demo_no_process,
                get_process_vars = demo_vars\<rparr>"

definition demo_load :: "string \<Rightarrow> int \<times> lua_value" where
  "demo_load path = (0, LFunction 1)"

definition demo_interp ::
  "int \<Rightarrow> lua_value \<Rightarrow> lua_value \<Rightarrow> lua_value list \<Rightarrow> lua_table \<Rightarrow> call_outcome option" where
  "demo_interp st v f args g =
     (case f of
        LFunction n \<Rightarrow>
          if n = 1
          then Some \<lparr>co_status = 0, co_results = [], co_value = LNil,
                      co_globals = rawset g (LString ''handle_request'') (LFunction 2),
                      co_stdout = []\<rparr>
          else if n = 2
          then Some \<lparr>co_status = st, co_results = [], co_value = v, co_globals = g,
                      co_stdout = []\<rparr>
          else None
      | _ \<Rightarrow> None)"

definition demo_num2str :: "rat \<Rightarrow> string" where
  "demo_num2str q = ''0''"

definition demo_str2d :: "string \<Rightarrow> rat option" where
  "demo_str2d s = None"

definition demo_rt :: "int \<Rightarrow> lua_value \<Rightarrow> lua_runtime" where
  "demo_rt st v =
     \<lparr>stdlib = [(LString ''print'', LFunction 0)], loadfile = demo_load,
      interp = demo_interp st v, num2str = demo_num2str, str2d = demo_str2d\<rparr>"

text \<open>A runtime that finds a syntax error in the script.\<close>

definition demo_bad_load :: "string \<Rightarrow> int \<times> lua_value" where
  "demo_bad_load path = (LUA_ERRSYNTAX, LString ''unexpected symbol'')"

definition demo_bad_rt :: lua_runtime where
  "demo_bad_rt =
     \<lparr>stdlib = [(LString ''print'', LFunction 0)], loadfile = demo_bad_load,
      interp = demo_interp 0 LNil, num2str = demo_num2str, str2d = demo_str2d\<rparr>"

text \<open>The process as \<^verbatim>\<open>lua_plugin_init\<close> leaves it under that runtime.\<close>

definition demo_started :: "int \<Rightarrow> lua_value \<Rightarrow> process" where
  "demo_started st v =
     (case lua_plugin_init (demo_rt st v) demo_ops demo_conf demo_process of
        Some (Inr (r, P)) \<Rightarrow> P
      | _ \<Rightarrow> demo_process)"

text \<open>The kernel answering \<open>evs\<close> on standard input and \<open>other\<close> on every other descriptor.\<close>

definition answers_on :: "read_result list \<Rightarrow> read_result list \<Rightarrow> int \<Rightarrow> read_result list" where
  "answers_on evs other fd = (if fd = 0 then evs else other)"

text \<open>The stack of a call \<^verbatim>\<open>uhttpd.recv(n)\<close>.\<close>

definition recv_call :: "int \<Rightarrow> process" where
  "recv_call n = demo_process\<lparr>stack := [LNumber (of_int n)]\<rparr>"

text \<open>The stack of a call of \<^verbatim>\<open>uhttpd.recv\<close> on any one value.\<close>

definition recv_arg :: "lua_value \<Rightarrow> process" where
  "recv_arg v = demo_process\<lparr>stack := [v]\<rparr>"

section \<open>Properties\<close>

subsection \<open>Tables, the stack and the API\<close>

lemma rawget_rawset: "rawget (rawset t k v) k' = (if k' = k then v else rawget t k')"
  by (cases v) (auto simp: rawget_def rawset_def update_conv' delete_conv')

lemma stack_pos_second: "stack L = v # w # r \<Longrightarrow> stack_pos L (- 2) = Some 1"
  by (simp add: stack_pos_def)

lemma lua_setfield_second:
  "stack L = v # LTable t # r \<Longrightarrow>
   lua_setfield (- 2) k L =
     Some (L\<lparr>stack := LTable (rawset t (LString k) v) # r, api_log := api_log L @ [Call_setfield (- 2) k]\<rparr>)"
  by (simp add: lua_setfield_def stack_pos_second logged_def)

lemma uh_lua_api_table_result:
  "uh_lua_api_table conf (lua_open rt P) =
     Some (P\<lparr>stack := [],
              globals := rawset (stdlib rt) (LString ''uhttpd'') (LTable (api_table rt conf)),
              api_log := api_log P @ api_table_calls conf\<rparr>)"
  by (simp add: uh_lua_api_table_def lua_open_def lua_newtable_def lua_getglobal_def
      lua_pushvalue_def lua_setfield_def lua_pushcfunction_def lua_pushstring_def
      lua_setglobal_def stack_pos_def push_def logged_def api_table_def api_table_calls_def
     )

lemma uh_lua_recv_stdin_only:
  "answers STDIN_FILENO = answers' STDIN_FILENO \<Longrightarrow>
   uh_lua_recv rt bs answers L = uh_lua_recv rt bs answers' L"
  by (simp only: uh_lua_recv_def)


lemma push_then_setfield:
  "stack L = LTable t # r \<Longrightarrow>
   lua_pushstring (Some v) L \<bind> lua_setfield (- 2) k =
     Some (L\<lparr>stack := LTable (rawset t (LString k) (LString v)) # r,
             api_log := api_log L @ [Call_pushstring (Some v), Call_setfield (- 2) k]\<rparr>)"
  by (simp add: lua_pushstring_def push_def logged_def lua_setfield_second)

lemma push_process_vars_result:
  "stack L = LTable t # r \<Longrightarrow>
   push_process_vars vars L =
     Some (L\<lparr>stack := LTable (vars_table vars t) # r, api_log := api_log L @ vars_calls vars\<rparr>)"
proof (induction vars t arbitrary: L rule: vars_table.induct)
  case (1 t)
  then show ?case by simp
next
  case (2 name vars t)
  then show ?case by simp
next
  case (3 name v vars t)
  let ?L = "L\<lparr>stack := LTable (rawset t (LString name) (LString v)) # r,
             api_log := api_log L @ [Call_pushstring (Some v), Call_setfield (- 2) name]\<rparr>"
  have "stack ?L = LTable (rawset t (LString name) (LString v)) # r" by simp
  from "3.IH" [OF this] push_then_setfield [OF "3.prems", of v name]
  show ?case by simp
qed

lemma set_path_info_result:
  "stack L = LTable [] # r \<Longrightarrow>
   set_path_info conf url L =
     Some (L\<lparr>stack := LTable (path_info_table conf url) # r,
             api_log := api_log L @ path_info_calls conf url\<rparr>)"
  by (simp add: set_path_info_def path_info_table_def path_info_calls_def Let_def
      lua_pushlstring_def push_def logged_def lua_setfield_second)

lemma set_http_version_result:
  "stack L = LTable t # r \<Longrightarrow>
   set_http_version cl L =
     Some (L\<lparr>stack := LTable (rawset t (LString ''HTTP_VERSION'') (LNumber (http_version cl))) # r,
             api_log := api_log L @ [Call_pushnumber (http_version cl),
                                     Call_setfield (- 2) ''HTTP_VERSION'']\<rparr>)"
  by (simp add: set_http_version_def http_version_def lua_pushnumber_def push_def logged_def
      lua_setfield_second)

lemma lua_main_env_result:
  "lua_main_env ops conf cl pinfo url L =
     Some (L\<lparr>stack := LTable (env_table ops conf cl pinfo url)
                         # rawget (globals L) (LString UH_LUA_CB) # stack L,
             api_log := api_log L @ [Call_getglobal UH_LUA_CB, Call_newtable]
                          @ env_calls ops conf cl pinfo url\<rparr>)"
proof -
  let ?cb = "rawget (globals L) (LString UH_LUA_CB)"
  let ?r = "?cb # stack L"
  let ?vars = "get_process_vars ops cl (set_query url pinfo)"
  let ?c1 = "[Call_getglobal UH_LUA_CB, Call_newtable]"
  let ?L1 = "L\<lparr>stack := LTable [] # ?r, api_log := api_log L @ ?c1\<rparr>"
  let ?L2 = "L\<lparr>stack := LTable (path_info_table conf url) # ?r,
               api_log := api_log L @ ?c1 @ path_info_calls conf url\<rparr>"
  let ?L3 = "L\<lparr>stack := LTable (vars_table ?vars (path_info_table conf url)) # ?r,
               api_log := api_log L @ ?c1 @ path_info_calls conf url @ vars_calls ?vars\<rparr>"
  let ?L4 = "L\<lparr>stack := LTable (env_table ops conf cl pinfo url) # ?r,
               api_log := api_log L @ ?c1 @ env_calls ops conf cl pinfo url\<rparr>"
  have s1: "lua_getglobal UH_LUA_CB L \<bind> lua_newtable = Some ?L1"
    by (simp add: lua_getglobal_def lua_newtable_def push_def logged_def)
  have s2: "set_path_info conf url ?L1 = Some ?L2"
    using set_path_info_result [of ?L1 ?r conf url] by simp
  have s3: "push_process_vars ?vars ?L2 = Some ?L3"
    using push_process_vars_result [of ?L2 "path_info_table conf url" ?r ?vars] by simp
  have s4: "set_http_version cl ?L3 = Some ?L4"
    using set_http_version_result [of ?L3 "vars_table ?vars (path_info_table conf url)" ?r cl]
    by (simp add: env_table_def env_calls_def)
  show ?thesis
    by (simp only: lua_main_env_def s1 s2 s3 s4 Option.bind.simps)
qed


lemma lua_main_closed:
  assumes "interp rt (rawget (globals L) (LString UH_LUA_CB))
             [LTable (env_table ops conf cl pinfo url)] (globals L) = Some co"
  shows "lua_main rt ops conf errstr cl pinfo url L =
     Some (if (co_status co = LUA_ERRMEM \<or> co_status co = LUA_ERRRUN)
              \<and> tostring rt (co_value co) = None then EXIT_FAILURE else 0,
           set_query url pinfo,
           L\<lparr>stack := (if co_status co = 0 then []
                        else if co_status co = LUA_ERRMEM \<or> co_status co = LUA_ERRRUN
                        then (case tostring rt (co_value co) of
                                None \<Rightarrow> [co_value co] | Some s \<Rightarrow> [LString s])
                        else [co_value co]) @ stack L,
             globals := co_globals co,
             api_log := api_log L @ [Call_getglobal UH_LUA_CB, Call_newtable]
                          @ env_calls ops conf cl pinfo url
                          @ [Call_pcall (rawget (globals L) (LString UH_LUA_CB))
                               [LTable (env_table ops conf cl pinfo url)] 0],
             out := out L @ co_stdout co
                      @ (if (co_status co = LUA_ERRMEM \<or> co_status co = LUA_ERRRUN)
                            \<and> tostring rt (co_value co) \<noteq> None
                         then c_printf error_500 [pi_phys (set_query url pinfo), Some errstr]
                         else []),
             err := err L
                      @ (if (co_status co = LUA_ERRMEM \<or> co_status co = LUA_ERRRUN)
                            \<and> tostring rt (co_value co) = None
                         then c_printf (''PANIC: unprotected error in call to Lua API (%s)'' @ [CHR 0x0A])
                                [Some (''bad argument #-1 (string expected, got ''
                                         @ typename (co_value co) @ '')'')]
                         else [])\<rparr>)"
  using assms
  by (auto simp add: lua_main_def lua_main_env_result lua_pcall_def logged_def adjust_results_def
      luaL_checkstring_def stack_pos_def lua_panic_def printf_def fprintf_stderr_def
      LUA_ERRMEM_def LUA_ERRRUN_def
      simp del: c_printf.simps split: option.splits)

lemma lua_main_no_return:
  assumes "interp rt (rawget (globals L) (LString UH_LUA_CB))
             [LTable (env_table ops conf cl pinfo url)] (globals L) = None"
  shows "lua_main rt ops conf errstr cl pinfo url L = None"
  using assms
  by (simp add: lua_main_def lua_main_env_result lua_pcall_def)

subsection \<open>The environment table and the path\<close>

lemma distinct_rawset: "distinct (map fst t) \<Longrightarrow> distinct (map fst (rawset t k v))"
  by (cases v) (simp_all add: rawset_def distinct_update distinct_delete)

lemma map_of_rawset:
  "map_of (rawset t k v) = (case v of LNil \<Rightarrow> (map_of t)(k := None) | _ \<Rightarrow> (map_of t)(k \<mapsto> v))"
  by (cases v) (simp_all add: rawset_def update_conv' delete_conv')

lemma set_rawset_entries:
  assumes "distinct (map fst t)" and "(k', v') \<in> set (rawset t k v)"
  shows "(k' = k \<and> v' = v) \<or> (k' \<noteq> k \<and> (k', v') \<in> set t)"
proof -
  from assms have "map_of (rawset t k v) k' = Some v'"
    by (simp add: distinct_rawset)
  then have "(k' = k \<and> v' = v) \<or> (k' \<noteq> k \<and> map_of t k' = Some v')"
    by (cases v) (auto simp: map_of_rawset split: if_splits)
  with assms(1) show ?thesis by simp
qed

lemma vars_table_strings:
  "distinct (map fst t) \<Longrightarrow> \<forall>(k, v) \<in> set t. is_string k \<and> is_string v \<Longrightarrow>
   distinct (map fst (vars_table vars t))
   \<and> (\<forall>(k, v) \<in> set (vars_table vars t). is_string k \<and> is_string v)"
proof (induction vars t rule: vars_table.induct)
  case (3 name v vars t)
  have "\<forall>(k, w) \<in> set (rawset t (LString name) (LString v)). is_string k \<and> is_string w"
  proof (intro ballI, clarify)
    fix k w
    assume "(k, w) \<in> set (rawset t (LString name) (LString v))"
    with "3.prems"(1) have "(k = LString name \<and> w = LString v)
        \<or> (k \<noteq> LString name \<and> (k, w) \<in> set t)"
      by (rule set_rawset_entries)
    with "3.prems"(2) show "is_string k \<and> is_string w" by auto
  qed
  moreover have "distinct (map fst (rawset t (LString name) (LString v)))"
    using "3.prems" by (simp add: distinct_rawset)
  ultimately show ?case using "3.IH" by simp
qed simp_all

lemma path_info_table_strings:
  "distinct (map fst (path_info_table conf url))
   \<and> (\<forall>(k, v) \<in> set (path_info_table conf url). is_string k \<and> is_string v)"
  by (simp add: path_info_table_def rawset_def)

lemma env_table_entries:
  "\<forall>(k, v) \<in> set (env_table ops conf cl pinfo url).
      is_string k \<and> (if k = LString ''HTTP_VERSION'' then v = LNumber (http_version cl)
                      else is_string v)"
proof -
  let ?T = "vars_table (get_process_vars ops cl (set_query url pinfo)) (path_info_table conf url)"
  have T: "distinct (map fst ?T) \<and> (\<forall>(k, v) \<in> set ?T. is_string k \<and> is_string v)"
    by (rule vars_table_strings)
       (rule path_info_table_strings [THEN conjunct1], rule path_info_table_strings [THEN conjunct2])
  show ?thesis
    unfolding env_table_def
  proof (intro ballI, clarify)
    fix k v
    assume "(k, v) \<in> set (rawset ?T (LString ''HTTP_VERSION'') (LNumber (http_version cl)))"
    with T have "(k = LString ''HTTP_VERSION'' \<and> v = LNumber (http_version cl))
        \<or> (k \<noteq> LString ''HTTP_VERSION'' \<and> (k, v) \<in> set ?T)"
      by (intro set_rawset_entries) simp_all
    with T show "is_string k \<and> (if k = LString ''HTTP_VERSION''
        then v = LNumber (http_version cl) else is_string v)"
      by auto
  qed
qed

lemma rawget_vars_table:
  "\<forall>v. (name, Some v) \<notin> set vars \<Longrightarrow>
   rawget (vars_table vars t) (LString name) = rawget t (LString name)"
  by (induction vars t rule: vars_table.induct) (auto simp: rawget_rawset)

lemma strchr_None: "strchr s c = None \<longleftrightarrow> c \<notin> set s"
  by (induction s) auto

lemma strchr_Some: "strchr s c = Some n \<Longrightarrow> n = length (takeWhile (\<lambda>x. x \<noteq> c) s)"
  by (induction s arbitrary: n) (auto split: if_splits)

lemma path_len_portion: "path_len url = length (path_portion url)"
proof (cases "strchr url CHR ''?''")
  case None
  then have "CHR ''?'' \<notin> set url" by (simp add: strchr_None)
  then have tw: "takeWhile (\<lambda>c. c \<noteq> CHR ''?'') url = url" by (auto simp: takeWhile_eq_all_conv)
  show ?thesis by (simp add: path_len_def path_portion_def None tw)
next
  case (Some n)
  then show ?thesis by (simp add: path_len_def path_portion_def strchr_Some)
qed

lemma take_path_len: "take (path_len url) url = path_portion url"
  unfolding path_len_portion path_portion_def by (rule takeWhile_eq_take [symmetric])

lemma path_info_string:
  "take (path_len url - n) (drop n url) = drop n (path_portion url)"
  by (simp only: drop_take [symmetric] take_path_len)

lemma set_query_portion:
  "pi_query (set_query url pinfo) =
     (if CHR ''?'' \<in> set url then Some (dropWhile (\<lambda>c. c \<noteq> CHR ''?'') url) else pi_query pinfo)"
proof (cases "strchr url CHR ''?''")
  case None
  moreover from None have "CHR ''?'' \<notin> set url" by (simp add: strchr_None)
  ultimately show ?thesis by (simp add: set_query_def)
next
  case (Some n)
  then have n: "n = length (takeWhile (\<lambda>c. c \<noteq> CHR ''?'') url)" by (rule strchr_Some)
  from Some have "CHR ''?'' \<in> set url" using strchr_None [of url "CHR ''?''"] by auto
  with Some n show ?thesis by (simp add: set_query_def dropWhile_eq_drop)
qed

lemma rawget_path_info_table:
  "rawget (path_info_table conf url) (LString ''PATH_INFO'') =
     (if length (path_portion url) > length (lua_prefix conf)
      then LString (drop (length (lua_prefix conf)) (path_portion url)) else LNil)"
  by (simp add: path_info_table_def rawget_rawset path_info_string path_len_portion [symmetric])
     (simp add: rawget_def)

subsection \<open>Initialisation in closed form\<close>

lemma uh_lua_state_init_closed:
  "uh_lua_state_init rt conf P =
    (let G = rawset (stdlib rt) (LString ''uhttpd'') (LTable (api_table rt conf));
         h = lua_handler conf;
         chunk = snd (loadfile rt h);
         L2 = P\<lparr>stack := [chunk], globals := G,
                 api_log := api_log P @ api_table_calls conf @ [Call_loadfile h]\<rparr>
     in if fst (loadfile rt h) \<noteq> 0 then Some (Inl (init_error rt ''loading'' L2))
        else
          (case interp rt chunk [] G of
             None \<Rightarrow> None
           | Some co \<Rightarrow>
               let L3 = P\<lparr>stack := (if co_status co = 0 then [] else [co_value co]),
                           globals := co_globals co,
                           api_log := api_log P @ api_table_calls conf
                                        @ [Call_loadfile h, Call_pcall chunk [] 0],
                           out := out P @ co_stdout co\<rparr>
               in if co_status co \<noteq> 0 then Some (Inl (init_error rt ''initializing'' L3))
                  else
                    let cb = rawget (co_globals co) (LString UH_LUA_CB);
                        L4 = L3\<lparr>stack := [cb],
                                 api_log := api_log P @ api_table_calls conf
                                   @ [Call_loadfile h, Call_pcall chunk [] 0,
                                      Call_getglobal UH_LUA_CB]\<rparr>
                    in if \<not> is_function cb
                       then Some (Inl (1, fprintf_stderr
                              (''Error: Lua handler provides no handle_request() callback.''
                                 @ [CHR 0x0A]) [] L4))
                       else Some (Inr L4)))"
  by (cases P)
     (simp add: uh_lua_state_init_def uh_lua_api_table_result luaL_loadfile_def lua_pcall_def
      lua_getglobal_def lua_isfunction_def stack_pos_def push_def logged_def adjust_results_def
      Let_def split: option.splits del: c_printf.simps)

subsection \<open>The read loop of \<^verbatim>\<open>uh_lua_recv\<close> in closed form\<close>

lemma recv_loop_len_irrelevant:
  "0 < n \<Longrightarrow> 0 < m \<Longrightarrow> uh_lua_recv_loop bs n B d evs = uh_lua_recv_loop bs m B d evs"
proof (induction evs arbitrary: B d)
  case Nil
  then show ?case by simp
next
  case (Cons ev evs)
  then show ?case by (cases ev) simp_all
qed

lemma uh_lua_recv_results_eval:
  "uh_lua_recv_results B d L =
     Some (if d > 0 then [LNumber (of_int d), LString B] else [LNumber (of_int d)])"
  by (simp add: uh_lua_recv_results_def luaL_pushresult_def lua_pushlstring_def
      lua_pushnumber_def lua_pushvalue_def lua_remove_def stack_pos_def push_def logged_def)

lemma int_of_double_of_int:
  "INT_MIN \<le> n \<Longrightarrow> n \<le> INT_MAX \<Longrightarrow> int_of_double (of_int n) = Some n"
  by (simp add: int_of_double_def)

lemma uh_lua_recv_number:
  "stack L = [LNumber q] \<Longrightarrow> luaL_checknumber rt L 1 = Inr q"
  by (simp add: luaL_checknumber_def stack_pos_def)

lemma delivered_append: "delivered (xs @ ys) = delivered xs @ delivered ys"
  by (induction xs rule: delivered.induct) simp_all


lemma errno_at_64_EINTR:
  "errno_at_64 e p = EINTR \<longleftrightarrow>
     e = EINTR \<or> ((e = EWOULDBLOCK \<or> e = EAGAIN) \<and> p = Poll_failed EINTR)"
  by (cases p) auto

lemma recv_loop_stop_now:
  assumes "0 < n" and "stops bs ev" and "d = int (length B)"
    and "d + int (length (delivered [ev])) \<le> INT_MAX"
  shows "uh_lua_recv_loop bs n B d (ev # post) =
     Finished (B @ delivered [ev],
               if is_failure ev \<and> B = [] then - 1 else d + int (length (delivered [ev])))"
proof (cases ev)
  case (Read_bytes bytes)
  with assms show ?thesis by auto
next
  case (Read_failed e p)
  with assms show ?thesis by (auto simp: errno_at_64_EINTR)
qed

lemma recv_loop_exact:
  "0 < n \<Longrightarrow> list_all (continues bs) pre \<Longrightarrow> stops bs ev \<Longrightarrow> d = int (length B) \<Longrightarrow>
   d + int (length (delivered (pre @ [ev]))) \<le> INT_MAX \<Longrightarrow>
   uh_lua_recv_loop bs n B d (pre @ ev # post) =
     Finished (B @ delivered (pre @ [ev]),
               if is_failure ev \<and> B @ delivered pre = [] then - 1
               else d + int (length (delivered (pre @ [ev]))))"
proof (induction pre arbitrary: B d)
  case Nil
  then show ?case using recv_loop_stop_now [of n bs ev d B post] by simp
next
  case (Cons x pre)
  show ?case
  proof (cases x)
    case (Read_failed e p)
    with Cons.prems have again:
      "uh_lua_recv_loop bs n B d ((x # pre) @ ev # post) = uh_lua_recv_loop bs n B d (pre @ ev # post)"
      by (auto simp: errno_at_64_EINTR)
    from Cons.prems Read_failed
    have "uh_lua_recv_loop bs n B d (pre @ ev # post) =
       Finished (B @ delivered (pre @ [ev]),
               if is_failure ev \<and> B @ delivered pre = [] then - 1
               else d + int (length (delivered (pre @ [ev]))))"
      by (intro Cons.IH) simp_all
    with again Read_failed show ?thesis by simp
  next
    case (Read_bytes bytes)
    with Cons.prems have full: "bytes \<noteq> []" "length bytes = bs" by simp_all
    from Cons.prems Read_bytes have room: "\<not> d + int (length bytes) > INT_MAX"
      by (simp add: delivered_append)
    from Cons.prems(1) full room Read_bytes have again:
      "uh_lua_recv_loop bs n B d ((x # pre) @ ev # post) =
       uh_lua_recv_loop bs n (B @ bytes) (d + int (length bytes)) (pre @ ev # post)"
      by simp
    from Cons.prems Read_bytes
    have "uh_lua_recv_loop bs n (B @ bytes) (d + int (length bytes)) (pre @ ev # post) =
       Finished ((B @ bytes) @ delivered (pre @ [ev]),
               if is_failure ev \<and> (B @ bytes) @ delivered pre = [] then - 1
               else (d + int (length bytes)) + int (length (delivered (pre @ [ev]))))"
      by (intro Cons.IH) (simp_all add: delivered_append)
    with again Read_bytes full show ?thesis by (simp add: delivered_append)
  qed
qed

lemma recv_loop_goes_on:
  "0 < n \<Longrightarrow> list_all (continues bs) evs \<Longrightarrow> 0 \<le> d \<Longrightarrow>
   d + int (length (delivered evs)) \<le> INT_MAX \<Longrightarrow>
   uh_lua_recv_loop bs n B d evs = Unfinished"
proof (induction evs arbitrary: B d)
  case Nil
  then show ?case by simp
next
  case (Cons x evs)
  show ?case
  proof (cases x)
    case (Read_failed e p)
    with Cons.prems have "uh_lua_recv_loop bs n B d (x # evs) = uh_lua_recv_loop bs n B d evs"
      by (auto simp: errno_at_64_EINTR)
    moreover from Cons.prems Read_failed have "uh_lua_recv_loop bs n B d evs = Unfinished"
      by (intro Cons.IH) simp_all
    ultimately show ?thesis by simp
  next
    case (Read_bytes bytes)
    with Cons.prems have "uh_lua_recv_loop bs n B d (x # evs) =
        uh_lua_recv_loop bs n (B @ bytes) (d + int (length bytes)) evs"
      by simp
    moreover from Cons.prems Read_bytes
    have "uh_lua_recv_loop bs n (B @ bytes) (d + int (length bytes)) evs = Unfinished"
      by (intro Cons.IH) simp_all
    ultimately show ?thesis by simp
  qed
qed

lemma uh_lua_recv_exact:
  assumes "luaL_checknumber rt L 1 = Inr q" and "int_of_double q = Some len" and "0 < len"
    and "answers STDIN_FILENO = pre @ ev # post"
    and "list_all (continues bs) pre" and "stops bs ev"
    and "int (length (delivered (pre @ [ev]))) \<le> INT_MAX"
  shows "uh_lua_recv rt bs answers L =
     Finished (Inr (recv_values (delivered (pre @ [ev])) (is_failure ev)))"
proof -
  let ?data = "delivered (pre @ [ev])"
  let ?d = "if is_failure ev \<and> delivered pre = [] then - 1 else int (length ?data)"
  from assms have loop: "uh_lua_recv_loop bs len [] 0 (answers STDIN_FILENO) = Finished (?data, ?d)"
    using recv_loop_exact [of len bs pre ev 0 "[]" post] by simp
  have fail: "is_failure ev \<Longrightarrow> delivered [ev] = []"
    by (cases ev) simp_all
  have "(if 0 < ?d then [LNumber (of_int ?d), LString ?data] else [LNumber (of_int ?d)])
      = recv_values ?data (is_failure ev)"
    by (cases "delivered pre"; cases "delivered [ev]")
       (auto simp: recv_values_def delivered_append fail)
  then show ?thesis
    by (simp add: uh_lua_recv_def assms(1,2) loop uh_lua_recv_results_eval)
qed

lemma uh_lua_recv_goes_on:
  assumes "luaL_checknumber rt L 1 = Inr q" and "int_of_double q = Some len" and "0 < len"
    and "list_all (continues bs) (answers STDIN_FILENO)"
    and "int (length (delivered (answers STDIN_FILENO))) \<le> INT_MAX"
  shows "uh_lua_recv rt bs answers L = Unfinished"
  using assms recv_loop_goes_on [of len bs "answers STDIN_FILENO" 0 "[]"]
  by (simp add: uh_lua_recv_def)


lemma uh_lua_recv_same_length:
  assumes "luaL_checknumber rt L 1 = Inr q" and "int_of_double q = Some len" and "0 < len"
    and "luaL_checknumber rt L' 1 = Inr q'" and "int_of_double q' = Some len'" and "0 < len'"
  shows "uh_lua_recv rt bs answers L' = uh_lua_recv rt bs answers L"
  using assms recv_loop_len_irrelevant [of len len' bs "[]" 0 "answers STDIN_FILENO"]
  by (auto simp: uh_lua_recv_def uh_lua_recv_results_eval split: run.splits)

lemma recv_call_number:
  "luaL_checknumber rt (recv_call n) 1 = Inr (of_int n)"
  by (rule uh_lua_recv_number) (simp add: recv_call_def)

lemma recv_arg_eval:
  "luaL_checknumber rt (recv_arg v) 1 =
     (case tonumber rt v of None \<Rightarrow> Inl (''number expected, got '' @ typename v) | Some q \<Rightarrow> Inr q)"
  by (auto simp: luaL_checknumber_def recv_arg_def stack_pos_def demo_process_def
      split: option.splits)

lemma recv_call_length:
  "0 < n \<Longrightarrow> n \<le> INT_MAX \<Longrightarrow> int_of_double (of_int n) = Some n"
  by (rule int_of_double_of_int) (simp_all add: INT_MIN_def)


subsection \<open>The API table\<close>

text \<open>
  Claim C7. The table stored in the global \<^verbatim>\<open>uhttpd\<close> before the script is loaded binds
  \<^verbatim>\<open>send\<close> and \<^verbatim>\<open>sendc\<close> to one and the same value, the global \<^verbatim>\<open>print\<close> of the standard
  library; it binds \<^verbatim>\<open>recv\<close> to \<^verbatim>\<open>uh_lua_recv\<close>, \<^verbatim>\<open>urldecode\<close> and \<^verbatim>\<open>urlencode\<close> to their
  C functions, and \<^verbatim>\<open>docroot\<close> to the configured string (nil for a null pointer).
  \<^verbatim>\<open>uh_lua_recv\<close> reads descriptor 0 and no other: its result is the same under any
  two kernels that answer alike on descriptor 0, and, called with a positive length, it
  returns the bytes that the reads on descriptor 0 delivered, all of them and in
  their order, up to the answer at which the loop is left.
\<close>

theorem api_table_bindings:
  "\<exists>L T. uh_lua_api_table conf (lua_open rt P) = Some L
     \<and> rawget (globals L) (LString ''uhttpd'') = LTable T
     \<and> rawget T (LString ''send'') = rawget (stdlib rt) (LString ''print'')
     \<and> rawget T (LString ''sendc'') = rawget (stdlib rt) (LString ''print'')
     \<and> rawget T (LString ''recv'') = LCFunction Uh_lua_recv
     \<and> rawget T (LString ''urldecode'') = LCFunction Uh_lua_urldecode
     \<and> rawget T (LString ''urlencode'') = LCFunction Uh_lua_urlencode
     \<and> rawget T (LString ''docroot'') = (case docroot conf of None \<Rightarrow> LNil | Some d \<Rightarrow> LString d)
     \<and> STDIN_FILENO = 0
     \<and> (\<forall>bs answers answers' A.
           answers 0 = answers' 0 \<longrightarrow> uh_lua_recv rt bs answers A = uh_lua_recv rt bs answers' A)
     \<and> (\<forall>bs answers A q len pre ev post.
           luaL_checknumber rt A 1 = Inr q \<and> int_of_double q = Some len \<and> 0 < len
           \<and> answers 0 = pre @ ev # post \<and> list_all (continues bs) pre \<and> stops bs ev
           \<and> int (length (delivered (pre @ [ev]))) \<le> INT_MAX \<longrightarrow>
           uh_lua_recv rt bs answers A =
             Finished (Inr (recv_values (delivered (pre @ [ev])) (is_failure ev))))"
proof -
  let ?T = "api_table rt conf"
  have fields:
    "rawget ?T (LString ''send'') = rawget (stdlib rt) (LString ''print'')"
    "rawget ?T (LString ''sendc'') = rawget (stdlib rt) (LString ''print'')"
    "rawget ?T (LString ''recv'') = LCFunction Uh_lua_recv"
    "rawget ?T (LString ''urldecode'') = LCFunction Uh_lua_urldecode"
    "rawget ?T (LString ''urlencode'') = LCFunction Uh_lua_urlencode"
    "rawget ?T (LString ''docroot'') = (case docroot conf of None \<Rightarrow> LNil | Some d \<Rightarrow> LString d)"
    unfolding api_table_def by (simp_all only: rawget_rawset) simp_all
  have fd: "STDIN_FILENO = 0" by (simp add: STDIN_FILENO_def)
  have rd: "\<forall>bs answers answers' A.
           answers 0 = answers' 0 \<longrightarrow> uh_lua_recv rt bs answers A = uh_lua_recv rt bs answers' A"
    using uh_lua_recv_stdin_only unfolding fd by blast
  have body: "\<forall>bs answers A q len pre ev post.
           luaL_checknumber rt A 1 = Inr q \<and> int_of_double q = Some len \<and> 0 < len
           \<and> answers 0 = pre @ ev # post \<and> list_all (continues bs) pre \<and> stops bs ev
           \<and> int (length (delivered (pre @ [ev]))) \<le> INT_MAX \<longrightarrow>
           uh_lua_recv rt bs answers A =
             Finished (Inr (recv_values (delivered (pre @ [ev])) (is_failure ev)))"
  proof (intro allI impI, elim conjE)
    fix bs and answers :: "int \<Rightarrow> read_result list" and A :: process and q len pre ev post
    assume "luaL_checknumber rt A 1 = Inr q" "int_of_double q = Some len" "0 < len"
      "answers 0 = pre @ ev # post" "list_all (continues bs) pre" "stops bs ev"
      "int (length (delivered (pre @ [ev]))) \<le> INT_MAX"
    then show "uh_lua_recv rt bs answers A =
             Finished (Inr (recv_values (delivered (pre @ [ev])) (is_failure ev)))"
      by (intro uh_lua_recv_exact) (simp_all add: fd)
  qed
  let ?L = "P\<lparr>stack := [],
              globals := rawset (stdlib rt) (LString ''uhttpd'') (LTable ?T),
              api_log := api_log P @ api_table_calls conf\<rparr>"
  have gl: "rawget (globals ?L) (LString ''uhttpd'') = LTable ?T"
    by (simp add: rawget_rawset)
  have run: "uh_lua_api_table conf (lua_open rt P) = Some ?L"
    by (rule uh_lua_api_table_result)
  show ?thesis
    using run gl fields fd rd body by (intro exI [of _ ?L] exI [of _ ?T] conjI)
qed

theorem api_table_bindings_witness:
  "answers_on [Read_bytes ''abcd'', Read_bytes ''ef''] [] 0
     = answers_on [Read_bytes ''abcd'', Read_bytes ''ef''] [Read_bytes ''zz''] 0
   \<and> uh_lua_recv (demo_rt 0 LNil) 4 (answers_on [Read_bytes ''abcd'', Read_bytes ''ef''] [])
         (recv_call 1)
       = uh_lua_recv (demo_rt 0 LNil) 4
           (answers_on [Read_bytes ''abcd'', Read_bytes ''ef''] [Read_bytes ''zz'']) (recv_call 1)
   \<and> uh_lua_recv (demo_rt 0 LNil) 4
         (answers_on [Read_bytes ''abcd'', Read_bytes ''ef''] [Read_bytes ''zz'']) (recv_call 1)
       = Finished (Inr [LNumber 6, LString ''abcdef''])"
proof -
  let ?evs = "[Read_bytes ''abcd'', Read_bytes ''ef'']"
  let ?rt = "demo_rt 0 LNil"
  have same: "answers_on ?evs [] 0 = answers_on ?evs [Read_bytes ''zz''] 0"
    by (simp add: answers_on_def)
  from api_table_bindings [where conf = demo_conf and rt = ?rt and P = demo_process]
  obtain L T where
    rd: "\<forall>bs answers answers' A.
           answers 0 = answers' 0 \<longrightarrow> uh_lua_recv ?rt bs answers A = uh_lua_recv ?rt bs answers' A"
    and body: "\<forall>bs answers A q len pre ev post.
           luaL_checknumber ?rt A 1 = Inr q \<and> int_of_double q = Some len \<and> 0 < len
           \<and> answers 0 = pre @ ev # post \<and> list_all (continues bs) pre \<and> stops bs ev
           \<and> int (length (delivered (pre @ [ev]))) \<le> INT_MAX \<longrightarrow>
           uh_lua_recv ?rt bs answers A =
             Finished (Inr (recv_values (delivered (pre @ [ev])) (is_failure ev)))"
    by (elim exE conjE)
  have a: "uh_lua_recv ?rt 4 (answers_on ?evs []) (recv_call 1)
       = uh_lua_recv ?rt 4 (answers_on ?evs [Read_bytes ''zz'']) (recv_call 1)"
    by (rule rd [rule_format, where answers = "answers_on ?evs []"
          and answers' = "answers_on ?evs [Read_bytes ''zz'']", OF same])
  have pre: "luaL_checknumber ?rt (recv_call 1) 1 = Inr (of_int 1)
      \<and> int_of_double (of_int 1) = Some 1 \<and> (0::int) < 1
      \<and> answers_on ?evs [Read_bytes ''zz''] 0 = [Read_bytes ''abcd''] @ Read_bytes ''ef'' # []
      \<and> list_all (continues 4) [Read_bytes ''abcd''] \<and> stops 4 (Read_bytes ''ef'')
      \<and> int (length (delivered ([Read_bytes ''abcd''] @ [Read_bytes ''ef'']))) \<le> INT_MAX"
  proof (intro conjI)
    show "luaL_checknumber ?rt (recv_call 1) 1 = Inr (of_int 1)"
      by (rule recv_call_number)
    show "int_of_double (of_int 1) = Some 1"
      by (rule int_of_double_of_int) (simp_all add: INT_MIN_def INT_MAX_def)
  qed (simp_all add: INT_MAX_def answers_on_def)
  have "uh_lua_recv ?rt 4 (answers_on ?evs [Read_bytes ''zz'']) (recv_call 1)
       = Finished (Inr (recv_values (delivered ([Read_bytes ''abcd''] @ [Read_bytes ''ef'']))
                          (is_failure (Read_bytes ''ef''))))"
    by (rule body [rule_format, where answers = "answers_on ?evs [Read_bytes ''zz'']"
          and A = "recv_call 1" and q = "of_int 1" and len = 1
          and pre = "[Read_bytes ''abcd'']" and ev = "Read_bytes ''ef''" and post = "[]"
          and bs = 4, OF pre])
  then have b: "uh_lua_recv ?rt 4 (answers_on ?evs [Read_bytes ''zz'']) (recv_call 1)
       = Finished (Inr [LNumber 6, LString ''abcdef''])"
    by (simp add: recv_values_def)
  from same a b show ?thesis by simp
qed

subsection \<open>What \<^verbatim>\<open>uh_lua_recv\<close> reads and returns\<close>

text \<open>
  Claim C8, as the code has it. The length is the argument converted to an \<^verbatim>\<open>int\<close>
  (line 50). For every call whose length is positive after that conversion, the result
  is the same whatever the length is: the loop tests it and never changes it. The loop
  is left at the first answer of the kernel that is the end of the file, a read of
  fewer than \<^verbatim>\<open>LUAL_BUFFERSIZE\<close> bytes or a failed read that is not retried, and
  \<^verbatim>\<open>uh_lua_recv\<close> then returns every byte delivered up to there, however many more than
  the length they are; as long as the answers are full buffers and retried failures
  it goes on reading. The count is kept in an \<^verbatim>\<open>int\<close>, so this is stated for fewer than
  \<open>2^31\<close> bytes.
\<close>

theorem recv_length_never_limits:
  assumes "luaL_checknumber rt L 1 = Inr q" and "int_of_double q = Some len" and "0 < len"
  shows "(\<forall>L' q' len'.
            luaL_checknumber rt L' 1 = Inr q' \<and> int_of_double q' = Some len' \<and> 0 < len' \<longrightarrow>
            uh_lua_recv rt bs answers L' = uh_lua_recv rt bs answers L)
     \<and> (\<forall>pre ev post.
            answers STDIN_FILENO = pre @ ev # post \<and> list_all (continues bs) pre \<and> stops bs ev
            \<and> int (length (delivered (pre @ [ev]))) \<le> INT_MAX \<longrightarrow>
            uh_lua_recv rt bs answers L =
              Finished (Inr (recv_values (delivered (pre @ [ev])) (is_failure ev))))
     \<and> (list_all (continues bs) (answers STDIN_FILENO)
          \<and> int (length (delivered (answers STDIN_FILENO))) \<le> INT_MAX \<longrightarrow>
          uh_lua_recv rt bs answers L = Unfinished)"
proof (intro conjI allI impI)
  fix L' :: process and q' len'
  assume "luaL_checknumber rt L' 1 = Inr q' \<and> int_of_double q' = Some len' \<and> 0 < len'"
  with assms show "uh_lua_recv rt bs answers L' = uh_lua_recv rt bs answers L"
    by (intro uh_lua_recv_same_length [of rt L q len L' q' len']) simp_all
next
  fix pre ev post
  assume "answers STDIN_FILENO = pre @ ev # post \<and> list_all (continues bs) pre \<and> stops bs ev
            \<and> int (length (delivered (pre @ [ev]))) \<le> INT_MAX"
  with assms show "uh_lua_recv rt bs answers L =
              Finished (Inr (recv_values (delivered (pre @ [ev])) (is_failure ev)))"
    by (intro uh_lua_recv_exact [of rt L q len]) simp_all
next
  assume "list_all (continues bs) (answers STDIN_FILENO)
          \<and> int (length (delivered (answers STDIN_FILENO))) \<le> INT_MAX"
  with assms show "uh_lua_recv rt bs answers L = Unfinished"
    by (intro uh_lua_recv_goes_on [of rt L q len]) simp_all
qed

theorem recv_length_never_limits_witness:
  "uh_lua_recv (demo_rt 0 LNil) 4 (answers_on [Read_bytes ''abcd'', Read_bytes ''ef''] [])
       (recv_call 7)
     = uh_lua_recv (demo_rt 0 LNil) 4 (answers_on [Read_bytes ''abcd'', Read_bytes ''ef''] [])
         (recv_call 1)
   \<and> uh_lua_recv (demo_rt 0 LNil) 4 (answers_on [Read_bytes ''abcd'', Read_bytes ''ef''] [])
         (recv_call 1)
     = Finished (Inr [LNumber 6, LString ''abcdef''])
   \<and> uh_lua_recv (demo_rt 0 LNil) 4
         (answers_on [Read_bytes ''abcd'', Read_failed EINTR (Poll_revents False)] [])
         (recv_call 1)
     = Unfinished"
proof -
  let ?rt = "demo_rt 0 LNil"
  let ?evs = "[Read_bytes ''abcd'', Read_bytes ''ef'']"
  let ?more = "[Read_bytes ''abcd'', Read_failed EINTR (Poll_revents False)]"
  have num: "luaL_checknumber ?rt (recv_call 1) 1 = Inr (of_int 1)"
    by (rule recv_call_number)
  have len: "int_of_double (of_int 1) = Some 1"
    by (rule recv_call_length) (simp_all add: INT_MAX_def)
  have pos: "(0::int) < 1" by simp
  note inst = recv_length_never_limits [where rt = ?rt and L = "recv_call 1" and bs = 4,
      OF num len pos]
  have seven: "luaL_checknumber ?rt (recv_call 7) 1 = Inr (of_int 7)
      \<and> int_of_double (of_int 7) = Some 7 \<and> (0::int) < 7"
  proof (intro conjI)
    show "luaL_checknumber ?rt (recv_call 7) 1 = Inr (of_int 7)"
      by (rule recv_call_number)
    show "int_of_double (of_int 7) = Some 7"
      by (rule recv_call_length) (simp_all add: INT_MAX_def)
  qed simp
  have a: "uh_lua_recv ?rt 4 (answers_on ?evs []) (recv_call 7)
      = uh_lua_recv ?rt 4 (answers_on ?evs []) (recv_call 1)"
    by (rule inst [where answers = "answers_on ?evs []", THEN conjunct1, rule_format,
          where L' = "recv_call 7" and q' = "of_int 7" and len' = 7, OF seven])
  have stop: "answers_on ?evs [] STDIN_FILENO = [Read_bytes ''abcd''] @ Read_bytes ''ef'' # []
      \<and> list_all (continues 4) [Read_bytes ''abcd''] \<and> stops 4 (Read_bytes ''ef'')
      \<and> int (length (delivered ([Read_bytes ''abcd''] @ [Read_bytes ''ef'']))) \<le> INT_MAX"
    by (simp add: answers_on_def STDIN_FILENO_def INT_MAX_def)
  have "uh_lua_recv ?rt 4 (answers_on ?evs []) (recv_call 1)
      = Finished (Inr (recv_values (delivered ([Read_bytes ''abcd''] @ [Read_bytes ''ef'']))
                         (is_failure (Read_bytes ''ef''))))"
    by (rule inst [where answers = "answers_on ?evs []", THEN conjunct2, THEN conjunct1,
          rule_format, where pre = "[Read_bytes ''abcd'']" and ev = "Read_bytes ''ef''"
          and post = "[]", OF stop])
  then have b: "uh_lua_recv ?rt 4 (answers_on ?evs []) (recv_call 1)
      = Finished (Inr [LNumber 6, LString ''abcdef''])"
    by (simp add: recv_values_def)
  have go: "list_all (continues 4) (answers_on ?more [] STDIN_FILENO)
      \<and> int (length (delivered (answers_on ?more [] STDIN_FILENO))) \<le> INT_MAX"
    by (simp add: answers_on_def STDIN_FILENO_def INT_MAX_def)
  have c: "uh_lua_recv ?rt 4 (answers_on ?more []) (recv_call 1) = Unfinished"
    by (rule inst [where answers = "answers_on ?more []", THEN conjunct2, THEN conjunct2,
          rule_format, OF go])
  from a b c show ?thesis by simp
qed

text \<open>
  Claim C8 as the specification states it, for every \<open>n > 0\<close>, fails at
  \<^verbatim>\<open>uhttpd.recv(0.5)\<close>: the length converts to 0, the loop is not entered and the call
  returns 0 while three bytes wait on standard input, which \<^verbatim>\<open>uhttpd.recv(1)\<close> returns.
\<close>

theorem recv_fraction_reads_nothing:
  "(0::rat) < 1 / 2
   \<and> uh_lua_recv (demo_rt 0 LNil) 4 (answers_on [Read_bytes ''abc''] []) (recv_arg (LNumber (1 / 2)))
       = Finished (Inr [LNumber 0])
   \<and> uh_lua_recv (demo_rt 0 LNil) 4 (answers_on [Read_bytes ''abc''] []) (recv_arg (LNumber 1))
       = Finished (Inr [LNumber 3, LString ''abc''])"
proof -
  have "\<lfloor>1 / 2 :: rat\<rfloor> = 0"
    by (rule floor_unique) simp_all
  then have half: "int_of_double (1 / 2) = Some 0"
    by (simp add: int_of_double_def INT_MIN_def INT_MAX_def)
  have one: "int_of_double 1 = Some 1"
    by (simp add: int_of_double_def INT_MIN_def INT_MAX_def)
  show ?thesis
    by (simp add: uh_lua_recv_def recv_arg_eval half one answers_on_def STDIN_FILENO_def
        INT_MAX_def uh_lua_recv_results_eval)
qed




subsection \<open>Dispatch\<close>

text \<open>
  Claim C4. For every URL, \<^verbatim>\<open>check_lua_url\<close> returns exactly what the host's
  \<^verbatim>\<open>path_match\<close> returns on the configured prefix and the URL, and \<^verbatim>\<open>check_lua_url\<close> is the
  URL predicate of the handler the plugin registers.
\<close>

theorem check_lua_url_path_match:
  "check_lua_url ops conf url = path_match ops (lua_prefix conf) url
   \<and> check_url lua_dispatch = Some Fn_check_lua_url"
  by (simp add: check_lua_url_def lua_dispatch_def)

text \<open>
  Claim C6. When \<^verbatim>\<open>create_process\<close> returns false, \<^verbatim>\<open>lua_handle_request\<close> calls
  \<^verbatim>\<open>client_error\<close> with status 500 and the summary \<^verbatim>\<open>Internal Server Error\<close>, and does
  nothing else: the two host calls are all it adds to the process, whose interpreter and
  standard streams are left as they were.
\<close>

theorem create_process_failure_reported:
  assumes "\<not> create_process ops cl
               (spi\<lparr>pi_name := Some (lua_prefix conf), pi_phys := Some (lua_handler conf)\<rparr>) url"
  shows "lua_handle_request ops conf errstr spi cl url P =
     (spi\<lparr>pi_name := Some (lua_prefix conf), pi_phys := Some (lua_handler conf)\<rparr>,
      P\<lparr>host_log := host_log P @
            [Host_create_process cl
               (spi\<lparr>pi_name := Some (lua_prefix conf), pi_phys := Some (lua_handler conf)\<rparr>)
               url Fn_lua_main,
             Host_client_error cl 500 ''Internal Server Error''
               ''Failed to create CGI process: %s'' [Some errstr]]\<rparr>)"
  using assms by (simp add: lua_handle_request_def host_called_def Let_def)

theorem create_process_failure_reported_witness:
  "\<not> create_process demo_ops demo_client demo_pinfo ''/lua/status''
   \<and> lua_handle_request demo_ops demo_conf ''Cannot allocate memory'' demo_pinfo demo_client
         ''/lua/status'' demo_process =
       (demo_pinfo,
        demo_process\<lparr>host_log :=
          [Host_create_process demo_client demo_pinfo ''/lua/status'' Fn_lua_main,
           Host_client_error demo_client 500 ''Internal Server Error''
             ''Failed to create CGI process: %s'' [Some ''Cannot allocate memory'']]\<rparr>)"
proof -
  have same: "demo_pinfo\<lparr>pi_name := Some (lua_prefix demo_conf),
                          pi_phys := Some (lua_handler demo_conf)\<rparr> = demo_pinfo"
    by (simp add: demo_pinfo_def demo_conf_def)
  have fails: "\<not> create_process demo_ops demo_client demo_pinfo ''/lua/status''"
    by (simp add: demo_ops_def demo_no_process_def)
  from create_process_failure_reported [where ops = demo_ops and cl = demo_client
      and spi = demo_pinfo and conf = demo_conf and url = "''/lua/status''"
      and errstr = "''Cannot allocate memory''" and P = demo_process] fails
  show ?thesis
    unfolding same by (simp add: demo_process_def)
qed

subsection \<open>Logs and the concrete run\<close>

lemma no_loadfile_vars_calls: "filter is_loadfile (vars_calls vars) = []"
  by (induction vars rule: vars_calls.induct) simp_all

lemma no_loadfile_api_table_calls: "filter is_loadfile (api_table_calls conf) = []"
  by (simp add: api_table_calls_def)

lemma uh_lua_state_init_log:
  assumes "uh_lua_state_init rt conf P = Some r"
  shows "\<exists>P' rest. (r = Inl (1, P') \<or> r = Inr P')
           \<and> api_log P' = api_log P @ api_table_calls conf @ Call_loadfile (lua_handler conf) # rest
           \<and> filter is_loadfile rest = []"
  using assms unfolding uh_lua_state_init_closed
  by (auto simp: Let_def init_error_def fprintf_stderr_def split: if_splits option.splits
      simp del: c_printf.simps)

lemma lua_main_returns_iff:
  "lua_main rt ops conf errstr cl pinfo url L = None \<longleftrightarrow>
   interp rt (rawget (globals L) (LString UH_LUA_CB))
     [LTable (env_table ops conf cl pinfo url)] (globals L) = None"
proof (cases "interp rt (rawget (globals L) (LString UH_LUA_CB))
     [LTable (env_table ops conf cl pinfo url)] (globals L)")
  case None
  then show ?thesis by (simp add: lua_main_no_return)
next
  case (Some co)
  then show ?thesis by (simp add: lua_main_closed)
qed

lemma lua_main_log:
  assumes "lua_main rt ops conf errstr cl pinfo url L = Some (st, pinfo', L')"
  shows "api_log L' = api_log L @ [Call_getglobal UH_LUA_CB, Call_newtable]
           @ env_calls ops conf cl pinfo url
           @ [Call_pcall (rawget (globals L) (LString UH_LUA_CB))
                [LTable (env_table ops conf cl pinfo url)] 0]"
proof (cases "interp rt (rawget (globals L) (LString UH_LUA_CB))
     [LTable (env_table ops conf cl pinfo url)] (globals L)")
  case None
  with assms show ?thesis by (simp add: lua_main_no_return)
next
  case (Some co)
  from assms show ?thesis
    unfolding lua_main_closed [OF Some] by auto
qed

lemma demo_started_eval:
  "demo_started st v =
     \<lparr>stack = [LFunction 2],
      globals = [(LString ''print'', LFunction 0),
                 (LString ''uhttpd'',
                  LTable [(LString ''send'', LFunction 0), (LString ''sendc'', LFunction 0),
                          (LString ''recv'', LCFunction Uh_lua_recv),
                          (LString ''urldecode'', LCFunction Uh_lua_urldecode),
                          (LString ''urlencode'', LCFunction Uh_lua_urlencode),
                          (LString ''docroot'', LString ''/www'')]),
                 (LString ''handle_request'', LFunction 2)],
      api_log = api_table_calls demo_conf
                  @ [Call_loadfile ''/www/handler.lua'', Call_pcall (LFunction 1) [] 0,
                     Call_getglobal ''handle_request''],
      out = [], err = [], host_log = [Host_dispatch_add lua_dispatch]\<rparr>"
  by (simp add: demo_started_def lua_plugin_init_def uh_lua_state_init_closed demo_rt_def
      demo_load_def demo_interp_def demo_conf_def demo_process_def api_table_def rawset_def
      rawget_def UH_LUA_CB_def host_called_def Let_def)

lemma demo_env_eval:
  "env_table demo_ops demo_conf demo_client demo_pinfo ''/lua/status?verbose=1'' =
     [(LString ''PATH_INFO'', LString ''/status''),
      (LString ''REQUEST_METHOD'', LString ''GET''),
      (LString ''QUERY_STRING'', LString ''?verbose=1''),
      (LString ''HTTP_VERSION'', LNumber (11 / 10))]"
  by (simp add: env_table_def path_info_table_def path_len_def set_query_def demo_ops_def
      demo_vars_def demo_conf_def demo_client_def demo_pinfo_def http_version_def rawset_def)

lemma demo_interp_handler:
  "interp (demo_rt st v) (rawget (globals (demo_started st v)) (LString UH_LUA_CB)) args
     (globals (demo_started st v)) =
   Some \<lparr>co_status = st, co_results = [], co_value = v,
         co_globals = globals (demo_started st v), co_stdout = []\<rparr>"
  by (simp add: demo_started_eval demo_rt_def demo_interp_def rawget_def UH_LUA_CB_def)

lemma demo_callback:
  "rawget (globals (demo_started st v)) (LString UH_LUA_CB) = LFunction 2"
  by (simp add: demo_started_eval rawget_def UH_LUA_CB_def)

lemma demo_init_returns:
  "\<exists>P'. uh_lua_state_init (demo_rt st v) demo_conf demo_process = Some (Inr P')"
  by (simp add: uh_lua_state_init_closed demo_rt_def demo_load_def demo_interp_def
      demo_conf_def demo_process_def rawget_def rawset_def UH_LUA_CB_def Let_def)

lemma demo_lua_main_returns:
  "\<exists>st' pinfo' L'. lua_main (demo_rt st v) demo_ops demo_conf errstr demo_client demo_pinfo url
      (demo_started st v) = Some (st', pinfo', L')"
  unfolding lua_main_closed [OF demo_interp_handler] by simp

subsection \<open>The environment table\<close>

text \<open>
  Claim C2, as the code has it. In the table passed to \<^verbatim>\<open>handle_request\<close> every key is a
  string, and every value is a string but one: \<^verbatim>\<open>HTTP_VERSION\<close> is always present and is
  the number \<open>0.9 + version / 10\<close> that line 227 pushes with \<^verbatim>\<open>lua_pushnumber\<close>. The table
  is the one on the stack above the callback when lines 201 to 228 are done, and the
  single argument of the protected call.
\<close>

theorem env_table_entries_typed:
  "\<exists>env. map_option stack (lua_main_env ops conf cl pinfo url L) =
            Some (LTable env # rawget (globals L) (LString UH_LUA_CB) # stack L)
     \<and> (\<forall>(k, v) \<in> set env.
            is_string k \<and> (if k = LString ''HTTP_VERSION''
                            then v = LNumber (9 / 10 + of_int (request_version cl) / 10)
                            else is_string v))
     \<and> rawget env (LString ''HTTP_VERSION'') = LNumber (9 / 10 + of_int (request_version cl) / 10)
     \<and> (\<forall>st pinfo' L'.
            lua_main rt ops conf errstr cl pinfo url L = Some (st, pinfo', L') \<longrightarrow>
            last (api_log L') =
              Call_pcall (rawget (globals L) (LString UH_LUA_CB)) [LTable env] 0)"
proof -
  let ?env = "env_table ops conf cl pinfo url"
  let ?cb = "rawget (globals L) (LString UH_LUA_CB)"
  have a: "map_option stack (lua_main_env ops conf cl pinfo url L) = Some (LTable ?env # ?cb # stack L)"
    by (simp add: lua_main_env_result)
  have b: "\<forall>(k, v) \<in> set ?env.
            is_string k \<and> (if k = LString ''HTTP_VERSION''
                            then v = LNumber (9 / 10 + of_int (request_version cl) / 10)
                            else is_string v)"
    using env_table_entries [of ops conf cl pinfo url] by (auto simp: http_version_def)
  have c: "rawget ?env (LString ''HTTP_VERSION'') = LNumber (9 / 10 + of_int (request_version cl) / 10)"
    by (simp add: env_table_def rawget_rawset http_version_def)
  have d: "\<forall>st pinfo' L'.
            lua_main rt ops conf errstr cl pinfo url L = Some (st, pinfo', L') \<longrightarrow>
            last (api_log L') = Call_pcall ?cb [LTable ?env] 0"
  proof (intro allI impI)
    fix st pinfo' L'
    assume run: "lua_main rt ops conf errstr cl pinfo url L = Some (st, pinfo', L')"
    show "last (api_log L') = Call_pcall ?cb [LTable ?env] 0"
    proof (cases "interp rt ?cb [LTable ?env] (globals L)")
      case None
      with run show ?thesis by (simp add: lua_main_no_return)
    next
      case (Some co)
      from run show ?thesis
        unfolding lua_main_closed [OF Some] by auto
    qed
  qed
  from a b c d show ?thesis by blast
qed

theorem env_table_entries_typed_witness:
  "\<exists>env. map_option stack
            (lua_main_env demo_ops demo_conf demo_client demo_pinfo ''/lua/status?verbose=1''
               (demo_started 0 LNil)) =
            Some [LTable env, LFunction 2, LFunction 2]
     \<and> (LString ''REQUEST_METHOD'', LString ''GET'') \<in> set env
     \<and> is_string (LString ''REQUEST_METHOD'') \<and> is_string (LString ''GET'')
     \<and> (LString ''HTTP_VERSION'', LNumber (11 / 10)) \<in> set env
     \<and> (\<exists>st pinfo' L'.
           lua_main (demo_rt 0 LNil) demo_ops demo_conf ''Success'' demo_client demo_pinfo
             ''/lua/status?verbose=1'' (demo_started 0 LNil) = Some (st, pinfo', L')
           \<and> last (api_log L') = Call_pcall (LFunction 2) [LTable env] 0)"
proof -
  let ?url = "''/lua/status?verbose=1''"
  let ?L = "demo_started 0 LNil"
  from env_table_entries_typed [where ops = demo_ops and conf = demo_conf and cl = demo_client
      and pinfo = demo_pinfo and url = ?url and L = ?L and rt = "demo_rt 0 LNil"
      and errstr = "''Success''"]
  obtain env where
    st: "map_option stack (lua_main_env demo_ops demo_conf demo_client demo_pinfo ?url ?L) =
           Some (LTable env # rawget (globals ?L) (LString UH_LUA_CB) # stack ?L)"
    and typed: "\<forall>(k, v) \<in> set env.
            is_string k \<and> (if k = LString ''HTTP_VERSION''
                            then v = LNumber (9 / 10 + of_int (request_version demo_client) / 10)
                            else is_string v)"
    and called: "\<forall>st pinfo' L'.
            lua_main (demo_rt 0 LNil) demo_ops demo_conf ''Success'' demo_client demo_pinfo ?url ?L
              = Some (st, pinfo', L') \<longrightarrow>
            last (api_log L') =
              Call_pcall (rawget (globals ?L) (LString UH_LUA_CB)) [LTable env] 0"
    by blast
  from st have env: "env = env_table demo_ops demo_conf demo_client demo_pinfo ?url"
    by (simp add: lua_main_env_result)
  have stack: "stack ?L = [LFunction 2]"
    by (simp add: demo_started_eval)
  have m1: "(LString ''REQUEST_METHOD'', LString ''GET'') \<in> set env"
    and m2: "(LString ''HTTP_VERSION'', LNumber (11 / 10)) \<in> set env"
    unfolding env demo_env_eval by simp_all
  from typed m1 have t1: "is_string (LString ''REQUEST_METHOD'') \<and> is_string (LString ''GET'')"
    by simp
  have "\<exists>r. lua_main (demo_rt 0 LNil) demo_ops demo_conf ''Success'' demo_client demo_pinfo ?url ?L
      = Some r"
    unfolding lua_main_closed [OF demo_interp_handler] by simp
  then obtain st' pinfo' L' where
    run: "lua_main (demo_rt 0 LNil) demo_ops demo_conf ''Success'' demo_client demo_pinfo ?url ?L
      = Some (st', pinfo', L')"
    by (metis prod_cases3)
  with called have "last (api_log L') = Call_pcall (LFunction 2) [LTable env] 0"
    by (simp add: demo_callback)
  with run st m1 m2 t1 show ?thesis
    unfolding demo_callback stack by blast
qed

text \<open>
  Claim C2 as the specification states it, every value a string, fails on a request for
  \<^verbatim>\<open>/lua/status?verbose=1\<close>: the table holds a number under \<^verbatim>\<open>HTTP_VERSION\<close>.
\<close>

theorem env_http_version_not_a_string:
  "map_option (hd \<circ> stack)
     (lua_main_env demo_ops demo_conf demo_client demo_pinfo ''/lua/status?verbose=1''
        (demo_started 0 LNil)) =
     Some (LTable [(LString ''PATH_INFO'', LString ''/status''),
                   (LString ''REQUEST_METHOD'', LString ''GET''),
                   (LString ''QUERY_STRING'', LString ''?verbose=1''),
                   (LString ''HTTP_VERSION'', LNumber (11 / 10))])
   \<and> \<not> is_string (LNumber (11 / 10))"
  by (simp add: lua_main_env_result demo_env_eval)

text \<open>
  Claim C10. The path is the URL up to its first \<^verbatim>\<open>?\<close>. After lines 206 to 217 the field
  \<^verbatim>\<open>PATH_INFO\<close> is set exactly when the path is longer than the prefix, to the path
  without its first \<^verbatim>\<open>strlen(conf.lua_prefix)\<close> bytes. The loop of lines 219 to 225 stores
  the host's variables into the same table afterwards, so in the table that
  \<^verbatim>\<open>handle_request\<close> receives the same holds when the host supplies no variable named
  \<^verbatim>\<open>PATH_INFO\<close> with a value. The URL is the path followed by the rest from the first
  \<^verbatim>\<open>?\<close> on; that rest is what \<^verbatim>\<open>pi->query\<close> is set to, and the path holds no \<^verbatim>\<open>?\<close>.
  Lengths are those of the strings; the code keeps them in an \<^verbatim>\<open>int\<close>.
\<close>

theorem path_info_field:
  "(\<exists>t. map_option stack
           (lua_getglobal UH_LUA_CB L \<bind> lua_newtable \<bind> set_path_info conf url) =
           Some (LTable t # rawget (globals L) (LString UH_LUA_CB) # stack L)
      \<and> rawget t (LString ''PATH_INFO'') =
          (if length (lua_prefix conf) < length (path_portion url)
           then LString (drop (length (lua_prefix conf)) (path_portion url)) else LNil))
   \<and> ((\<forall>v. (''PATH_INFO'', Some v) \<notin> set (get_process_vars ops cl (set_query url pinfo))) \<longrightarrow>
       (\<exists>env. map_option stack (lua_main_env ops conf cl pinfo url L) =
                Some (LTable env # rawget (globals L) (LString UH_LUA_CB) # stack L)
          \<and> rawget env (LString ''PATH_INFO'') =
              (if length (lua_prefix conf) < length (path_portion url)
               then LString (drop (length (lua_prefix conf)) (path_portion url)) else LNil)))
   \<and> url = path_portion url @ dropWhile (\<lambda>c. c \<noteq> CHR ''?'') url
   \<and> CHR ''?'' \<notin> set (path_portion url)
   \<and> pi_query (set_query url pinfo) =
       (if CHR ''?'' \<in> set url then Some (dropWhile (\<lambda>c. c \<noteq> CHR ''?'') url)
        else pi_query pinfo)
   \<and> (\<forall>st pinfo' L'. lua_main rt ops conf errstr cl pinfo url L = Some (st, pinfo', L') \<longrightarrow>
         pinfo' = set_query url pinfo)"
proof -
  let ?cb = "rawget (globals L) (LString UH_LUA_CB)"
  let ?E = "if length (lua_prefix conf) < length (path_portion url)
           then LString (drop (length (lua_prefix conf)) (path_portion url)) else LNil"
  let ?L1 = "L\<lparr>stack := LTable [] # ?cb # stack L,
               api_log := api_log L @ [Call_getglobal UH_LUA_CB, Call_newtable]\<rparr>"
  have s1: "lua_getglobal UH_LUA_CB L \<bind> lua_newtable = Some ?L1"
    by (simp add: lua_getglobal_def lua_newtable_def push_def logged_def)
  have s2: "map_option stack (set_path_info conf url ?L1) =
      Some (LTable (path_info_table conf url) # ?cb # stack L)"
    using set_path_info_result [of ?L1 "?cb # stack L" conf url] by simp
  have a: "\<exists>t. map_option stack
           (lua_getglobal UH_LUA_CB L \<bind> lua_newtable \<bind> set_path_info conf url) =
           Some (LTable t # ?cb # stack L)
      \<and> rawget t (LString ''PATH_INFO'') = ?E"
  proof -
    have "map_option stack
           (lua_getglobal UH_LUA_CB L \<bind> lua_newtable \<bind> set_path_info conf url) =
           Some (LTable (path_info_table conf url) # ?cb # stack L)"
      unfolding s1 using s2 by (simp only: Option.bind.simps)
    with rawget_path_info_table [of conf url] show ?thesis by blast
  qed
  have b: "(\<forall>v. (''PATH_INFO'', Some v) \<notin> set (get_process_vars ops cl (set_query url pinfo))) \<longrightarrow>
       (\<exists>env. map_option stack (lua_main_env ops conf cl pinfo url L) =
                Some (LTable env # ?cb # stack L)
          \<and> rawget env (LString ''PATH_INFO'') = ?E)"
  proof
    assume "\<forall>v. (''PATH_INFO'', Some v) \<notin> set (get_process_vars ops cl (set_query url pinfo))"
    then have "rawget (env_table ops conf cl pinfo url) (LString ''PATH_INFO'') = ?E"
      by (simp add: env_table_def rawget_rawset rawget_vars_table rawget_path_info_table)
    then show "\<exists>env. map_option stack (lua_main_env ops conf cl pinfo url L) =
                Some (LTable env # ?cb # stack L)
          \<and> rawget env (LString ''PATH_INFO'') = ?E"
      by (simp add: lua_main_env_result)
  qed
  have c: "url = path_portion url @ dropWhile (\<lambda>c. c \<noteq> CHR ''?'') url"
    by (simp add: path_portion_def)
  have d: "CHR ''?'' \<notin> set (path_portion url)"
    unfolding path_portion_def by (auto dest: set_takeWhileD)
  have e: "\<forall>st pinfo' L'. lua_main rt ops conf errstr cl pinfo url L = Some (st, pinfo', L') \<longrightarrow>
         pinfo' = set_query url pinfo"
    by (auto simp: lua_main_def split: option.splits sum.splits if_splits)
  from a b c d e set_query_portion [of url pinfo] show ?thesis by blast
qed

theorem path_info_field_witness:
  "\<exists>env. map_option stack
            (lua_main_env demo_ops demo_conf demo_client demo_pinfo ''/lua/status?verbose=1''
               (demo_started 0 LNil)) =
            Some [LTable env, LFunction 2, LFunction 2]
     \<and> rawget env (LString ''PATH_INFO'') = LString ''/status''
     \<and> pi_query (set_query ''/lua/status?verbose=1'' demo_pinfo) = Some ''?verbose=1''"
proof -
  let ?url = "''/lua/status?verbose=1''"
  let ?L = "demo_started 0 LNil"
  have no_var: "\<forall>v. (''PATH_INFO'', Some v)
      \<notin> set (get_process_vars demo_ops demo_client (set_query ?url demo_pinfo))"
    by (simp add: demo_ops_def demo_vars_def)
  have portion: "path_portion ?url = ''/lua/status''"
    by (simp add: path_portion_def)
  have rest: "dropWhile (\<lambda>c. c \<noteq> CHR ''?'') ?url = ''?verbose=1''"
    by simp
  have prefix: "lua_prefix demo_conf = ''/lua''"
    by (simp add: demo_conf_def)
  from path_info_field [where ops = demo_ops and conf = demo_conf and cl = demo_client
      and pinfo = demo_pinfo and url = ?url and L = ?L and rt = "demo_rt 0 LNil"
      and errstr = "''Success''"] no_var
  have "(\<exists>env. map_option stack (lua_main_env demo_ops demo_conf demo_client demo_pinfo ?url ?L) =
                Some (LTable env # rawget (globals ?L) (LString UH_LUA_CB) # stack ?L)
          \<and> rawget env (LString ''PATH_INFO'') =
              (if length (lua_prefix demo_conf) < length (path_portion ?url)
               then LString (drop (length (lua_prefix demo_conf)) (path_portion ?url)) else LNil))
     \<and> pi_query (set_query ?url demo_pinfo) =
       (if CHR ''?'' \<in> set ?url then Some (dropWhile (\<lambda>c. c \<noteq> CHR ''?'') ?url)
        else pi_query demo_pinfo)"
    by blast
  then show ?thesis
    unfolding portion rest prefix demo_callback by (simp add: demo_started_eval)
qed

subsection \<open>The steps of a request\<close>

text \<open>
  Claim C5. \<^verbatim>\<open>lua_main\<close> first fetches the global \<^verbatim>\<open>handle_request\<close>, then creates a new
  table and fills it (\<^verbatim>\<open>PATH_INFO\<close>, the host's variables in their order,
  \<^verbatim>\<open>HTTP_VERSION\<close>), then makes one protected call of the fetched value with that table
  as its only argument and no result; it makes no other API call that changes the
  interpreter, and it does not complete only when the callback does not return. It
  never calls \<^verbatim>\<open>luaL_loadfile\<close>; \<^verbatim>\<open>uh_lua_state_init\<close> calls it exactly once.
\<close>

theorem lua_main_steps:
  "(\<exists>env L1. lua_main_env ops conf cl pinfo url L = Some L1
      \<and> stack L1 = LTable env # rawget (globals L) (LString ''handle_request'') # stack L
      \<and> api_log L1 = api_log L @ [Call_getglobal ''handle_request'', Call_newtable]
          @ path_info_calls conf url
          @ vars_calls (get_process_vars ops cl (set_query url pinfo))
          @ [Call_pushnumber (http_version cl), Call_setfield (- 2) ''HTTP_VERSION'']
      \<and> (lua_main rt ops conf errstr cl pinfo url L = None \<longleftrightarrow>
           interp rt (rawget (globals L) (LString ''handle_request'')) [LTable env] (globals L)
             = None)
      \<and> (\<forall>st pinfo' L'.
            lua_main rt ops conf errstr cl pinfo url L = Some (st, pinfo', L') \<longrightarrow>
            api_log L' = api_log L1
              @ [Call_pcall (rawget (globals L) (LString ''handle_request'')) [LTable env] 0]
            \<and> filter is_loadfile (drop (length (api_log L)) (api_log L')) = []))
   \<and> (\<forall>r P'. uh_lua_state_init rt conf P = Some r \<and> (r = Inl (1, P') \<or> r = Inr P') \<longrightarrow>
         filter is_loadfile (drop (length (api_log P)) (api_log P'))
           = [Call_loadfile (lua_handler conf)])"
proof -
  let ?cb = "rawget (globals L) (LString ''handle_request'')"
  let ?env = "env_table ops conf cl pinfo url"
  let ?pre = "[Call_getglobal ''handle_request'', Call_newtable]
          @ path_info_calls conf url
          @ vars_calls (get_process_vars ops cl (set_query url pinfo))
          @ [Call_pushnumber (http_version cl), Call_setfield (- 2) ''HTTP_VERSION'']"
  let ?L1 = "L\<lparr>stack := LTable ?env # ?cb # stack L, api_log := api_log L @ ?pre\<rparr>"
  have pre: "[Call_getglobal UH_LUA_CB, Call_newtable] @ env_calls ops conf cl pinfo url = ?pre"
    by (simp add: env_calls_def UH_LUA_CB_def)
  have no_load: "filter is_loadfile ?pre = []"
    by (simp add: path_info_calls_def no_loadfile_vars_calls)
  have a: "lua_main_env ops conf cl pinfo url L = Some ?L1"
    using lua_main_env_result [of ops conf cl pinfo url L] pre
    by (simp add: UH_LUA_CB_def)
  have b: "lua_main rt ops conf errstr cl pinfo url L = None \<longleftrightarrow>
           interp rt ?cb [LTable ?env] (globals L) = None"
    using lua_main_returns_iff [of rt ops conf errstr cl pinfo url L]
    by (simp add: UH_LUA_CB_def)
  have c: "\<forall>st pinfo' L'.
            lua_main rt ops conf errstr cl pinfo url L = Some (st, pinfo', L') \<longrightarrow>
            api_log L' = api_log ?L1 @ [Call_pcall ?cb [LTable ?env] 0]
            \<and> filter is_loadfile (drop (length (api_log L)) (api_log L')) = []"
  proof (intro allI impI)
    fix st pinfo' L'
    assume "lua_main rt ops conf errstr cl pinfo url L = Some (st, pinfo', L')"
    from lua_main_log [OF this] pre
    have log: "api_log L' = api_log L @ ?pre @ [Call_pcall ?cb [LTable ?env] 0]"
      by (simp add: UH_LUA_CB_def)
    then show "api_log L' = api_log ?L1 @ [Call_pcall ?cb [LTable ?env] 0]
            \<and> filter is_loadfile (drop (length (api_log L)) (api_log L')) = []"
      using no_load by simp
  qed
  have d: "\<forall>r P'. uh_lua_state_init rt conf P = Some r \<and> (r = Inl (1, P') \<or> r = Inr P') \<longrightarrow>
         filter is_loadfile (drop (length (api_log P)) (api_log P'))
           = [Call_loadfile (lua_handler conf)]"
  proof (intro allI impI)
    fix r P'
    assume h: "uh_lua_state_init rt conf P = Some r \<and> (r = Inl (1, P') \<or> r = Inr P')"
    then obtain Q rest where
      Q: "r = Inl (1, Q) \<or> r = Inr Q"
      and log: "api_log Q = api_log P @ api_table_calls conf @ Call_loadfile (lua_handler conf) # rest"
      and rest: "filter is_loadfile rest = []"
      using uh_lua_state_init_log [of rt conf P r] by blast
    from h Q have "Q = P'" by auto
    with log rest show "filter is_loadfile (drop (length (api_log P)) (api_log P'))
           = [Call_loadfile (lua_handler conf)]"
      by (simp add: no_loadfile_api_table_calls)
  qed
  have e: "stack ?L1 = LTable ?env # ?cb # stack L" and f: "api_log ?L1 = api_log L @ ?pre"
    by simp_all
  have "\<exists>env L1. lua_main_env ops conf cl pinfo url L = Some L1
      \<and> stack L1 = LTable env # ?cb # stack L
      \<and> api_log L1 = api_log L @ ?pre
      \<and> (lua_main rt ops conf errstr cl pinfo url L = None \<longleftrightarrow>
           interp rt ?cb [LTable env] (globals L) = None)
      \<and> (\<forall>st pinfo' L'.
            lua_main rt ops conf errstr cl pinfo url L = Some (st, pinfo', L') \<longrightarrow>
            api_log L' = api_log L1 @ [Call_pcall ?cb [LTable env] 0]
            \<and> filter is_loadfile (drop (length (api_log L)) (api_log L')) = [])"
    using a e f b c by (intro exI [of _ ?env] exI [of _ ?L1] conjI)
  from this d show ?thesis by (rule conjI)
qed

theorem lua_main_steps_witness:
  "\<exists>st pinfo' L' P'.
      lua_main (demo_rt 0 LNil) demo_ops demo_conf ''Success'' demo_client demo_pinfo
        ''/lua/status?verbose=1'' (demo_started 0 LNil) = Some (st, pinfo', L')
      \<and> api_log L' = api_log (demo_started 0 LNil)
          @ [Call_getglobal ''handle_request'', Call_newtable,
             Call_pushlstring ''/status'', Call_setfield (- 2) ''PATH_INFO'',
             Call_pushstring (Some ''GET''), Call_setfield (- 2) ''REQUEST_METHOD'',
             Call_pushstring (Some ''?verbose=1''), Call_setfield (- 2) ''QUERY_STRING'',
             Call_pushnumber (11 / 10), Call_setfield (- 2) ''HTTP_VERSION'',
             Call_pcall (LFunction 2)
               [LTable [(LString ''PATH_INFO'', LString ''/status''),
                        (LString ''REQUEST_METHOD'', LString ''GET''),
                        (LString ''QUERY_STRING'', LString ''?verbose=1''),
                        (LString ''HTTP_VERSION'', LNumber (11 / 10))]] 0]
      \<and> uh_lua_state_init (demo_rt 0 LNil) demo_conf demo_process = Some (Inr P')
      \<and> filter is_loadfile (drop (length (api_log demo_process)) (api_log P'))
          = [Call_loadfile ''/www/handler.lua'']"
proof -
  let ?url = "''/lua/status?verbose=1''"
  let ?L = "demo_started 0 LNil"
  let ?rt = "demo_rt 0 LNil"
  from lua_main_steps [where ops = demo_ops and conf = demo_conf and cl = demo_client
      and pinfo = demo_pinfo and url = ?url and L = ?L and rt = ?rt
      and errstr = "''Success''" and P = demo_process]
  obtain env L1 where
    e1: "lua_main_env demo_ops demo_conf demo_client demo_pinfo ?url ?L = Some L1"
    and e2: "stack L1 = LTable env # rawget (globals ?L) (LString ''handle_request'') # stack ?L"
    and e3: "api_log L1 = api_log ?L @ [Call_getglobal ''handle_request'', Call_newtable]
          @ path_info_calls demo_conf ?url
          @ vars_calls (get_process_vars demo_ops demo_client (set_query ?url demo_pinfo))
          @ [Call_pushnumber (http_version demo_client), Call_setfield (- 2) ''HTTP_VERSION'']"
    and e5: "\<forall>st pinfo' L'.
            lua_main ?rt demo_ops demo_conf ''Success'' demo_client demo_pinfo ?url ?L
              = Some (st, pinfo', L') \<longrightarrow>
            api_log L' = api_log L1
              @ [Call_pcall (rawget (globals ?L) (LString ''handle_request'')) [LTable env] 0]
            \<and> filter is_loadfile (drop (length (api_log ?L)) (api_log L')) = []"
    and init: "\<forall>r P'. uh_lua_state_init ?rt demo_conf demo_process = Some r
         \<and> (r = Inl (1, P') \<or> r = Inr P') \<longrightarrow>
         filter is_loadfile (drop (length (api_log demo_process)) (api_log P'))
           = [Call_loadfile (lua_handler demo_conf)]"
    by blast
  from e1 e2 have env: "env = env_table demo_ops demo_conf demo_client demo_pinfo ?url"
    by (auto simp: lua_main_env_result)
  have calls: "path_info_calls demo_conf ?url
          @ vars_calls (get_process_vars demo_ops demo_client (set_query ?url demo_pinfo))
          @ [Call_pushnumber (http_version demo_client), Call_setfield (- 2) ''HTTP_VERSION'']
      = [Call_pushlstring ''/status'', Call_setfield (- 2) ''PATH_INFO'',
         Call_pushstring (Some ''GET''), Call_setfield (- 2) ''REQUEST_METHOD'',
         Call_pushstring (Some ''?verbose=1''), Call_setfield (- 2) ''QUERY_STRING'',
         Call_pushnumber (11 / 10), Call_setfield (- 2) ''HTTP_VERSION'']"
    by (simp add: path_info_calls_def path_len_def set_query_def demo_ops_def
      demo_vars_def demo_conf_def demo_client_def demo_pinfo_def http_version_def)
  have cb: "rawget (globals ?L) (LString ''handle_request'') = LFunction 2"
    using demo_callback [of 0 LNil] by (simp add: UH_LUA_CB_def)
  obtain st pinfo' L' where
    run: "lua_main ?rt demo_ops demo_conf ''Success'' demo_client demo_pinfo ?url ?L
      = Some (st, pinfo', L')"
    using demo_lua_main_returns by blast
  with e5 have "api_log L' = api_log L1 @ [Call_pcall (LFunction 2) [LTable env] 0]"
    by (simp add: cb)
  then have log: "api_log L' = api_log ?L
          @ [Call_getglobal ''handle_request'', Call_newtable,
             Call_pushlstring ''/status'', Call_setfield (- 2) ''PATH_INFO'',
             Call_pushstring (Some ''GET''), Call_setfield (- 2) ''REQUEST_METHOD'',
             Call_pushstring (Some ''?verbose=1''), Call_setfield (- 2) ''QUERY_STRING'',
             Call_pushnumber (11 / 10), Call_setfield (- 2) ''HTTP_VERSION'',
             Call_pcall (LFunction 2)
               [LTable [(LString ''PATH_INFO'', LString ''/status''),
                        (LString ''REQUEST_METHOD'', LString ''GET''),
                        (LString ''QUERY_STRING'', LString ''?verbose=1''),
                        (LString ''HTTP_VERSION'', LNumber (11 / 10))]] 0]"
    unfolding e3 calls env demo_env_eval by simp
  obtain P' where P': "uh_lua_state_init ?rt demo_conf demo_process = Some (Inr P')"
    using demo_init_returns by blast
  with init have "filter is_loadfile (drop (length (api_log demo_process)) (api_log P'))
           = [Call_loadfile (lua_handler demo_conf)]"
    by blast
  then have "filter is_loadfile (drop (length (api_log demo_process)) (api_log P'))
          = [Call_loadfile ''/www/handler.lua'']"
    by (simp add: demo_conf_def)
  with run log P' show ?thesis by blast
qed

subsection \<open>A callback that fails with a value that is no string\<close>

text \<open>
  Claim C1 at the script whose \<^verbatim>\<open>handle_request\<close> raises a table (\<^verbatim>\<open>error({})\<close>). The
  protected call returns \<^verbatim>\<open>LUA_ERRRUN\<close>; \<^verbatim>\<open>luaL_checkstring\<close> at line 233 raises outside
  any protected call, and the process ends in the interpreter's panic handler before
  line 237: nothing is written to standard output.
\<close>

theorem runtime_error_without_response:
  "\<exists>pinfo' L'.
     lua_main (demo_rt LUA_ERRRUN (LTable [])) demo_ops demo_conf ''Success'' demo_client
       demo_pinfo ''/lua/status'' (demo_started LUA_ERRRUN (LTable []))
       = Some (EXIT_FAILURE, pinfo', L')
     \<and> out L' = []"
  unfolding lua_main_closed [OF demo_interp_handler]
  by (simp add: LUA_ERRRUN_def demo_started_eval demo_rt_def)

text \<open>
  Claim C3 at the same script: the process ends with the status \<^verbatim>\<open>EXIT_FAILURE\<close> of the
  panic handler, not through the \<^verbatim>\<open>exit(0)\<close> of line 242.
\<close>

theorem runtime_error_exit_status:
  "map_option fst
     (lua_main (demo_rt LUA_ERRRUN (LTable [])) demo_ops demo_conf ''Success'' demo_client
        demo_pinfo ''/lua/status'' (demo_started LUA_ERRRUN (LTable [])))
     = Some 1"
  unfolding lua_main_closed [OF demo_interp_handler]
  by (simp add: LUA_ERRRUN_def EXIT_FAILURE_def demo_rt_def)

subsection \<open>Initialisation failures, reported errors and the single call\<close>

lemma error_500_text:
  "c_printf error_500 [a, Some b] =
     ''Status: 500 Internal Server Error''
       @ ([CHR 0x0D, CHR 0x0A, CHR 0x0D, CHR 0x0A]
          @ ''Unable to launch the requested Lua program:'' @ [CHR 0x0A] @ ''  ''
          @ (case a of None \<Rightarrow> ''(null)'' | Some s \<Rightarrow> s) @ '': '' @ b @ [CHR 0x0A])"
  by (simp add: error_500_def)

text \<open>
  When the script cannot be loaded, when running it fails, or when it leaves no function
  in the global \<^verbatim>\<open>handle_request\<close>, \<^verbatim>\<open>lua_plugin_init\<close> does not return: the process ends
  with status 1 inside \<^verbatim>\<open>uh_lua_state_init\<close>, and no handler has been registered.
\<close>

theorem init_failure_exits:
  "fst (loadfile rt (lua_handler conf)) \<noteq> 0
     \<or> (\<exists>co. interp rt (snd (loadfile rt (lua_handler conf))) []
                (rawset (stdlib rt) (LString ''uhttpd'') (LTable (api_table rt conf))) = Some co
             \<and> (co_status co \<noteq> 0
                  \<or> \<not> is_function (rawget (co_globals co) (LString ''handle_request''))))
   \<longrightarrow> (\<exists>P'. lua_plugin_init rt ops conf P = Some (Inl (1, P')) \<and> host_log P' = host_log P)"
  unfolding lua_plugin_init_def uh_lua_state_init_closed
  by (auto simp: Let_def init_error_def fprintf_stderr_def UH_LUA_CB_def
      simp del: c_printf.simps)

theorem init_failure_exits_witness:
  "fst (loadfile demo_bad_rt (lua_handler demo_conf)) \<noteq> 0
   \<and> (\<exists>P'. lua_plugin_init demo_bad_rt demo_ops demo_conf demo_process = Some (Inl (1, P'))
          \<and> host_log P' = [])"
proof -
  have bad: "fst (loadfile demo_bad_rt (lua_handler demo_conf)) \<noteq> 0"
    by (simp add: demo_bad_rt_def demo_bad_load_def LUA_ERRSYNTAX_def)
  with init_failure_exits [where rt = demo_bad_rt and conf = demo_conf and ops = demo_ops
      and P = demo_process]
  have "\<exists>P'. lua_plugin_init demo_bad_rt demo_ops demo_conf demo_process = Some (Inl (1, P'))
          \<and> host_log P' = host_log demo_process"
    by blast
  with bad show ?thesis by (simp add: demo_process_def)
qed

text \<open>
  When the callback fails with \<^verbatim>\<open>LUA_ERRRUN\<close> or \<^verbatim>\<open>LUA_ERRMEM\<close> and its error value is a
  string or a number, \<^verbatim>\<open>lua_main\<close> writes a response that begins with
  \<^verbatim>\<open>Status: 500 Internal Server Error\<close> after whatever the script wrote, and ends the
  process with status 0.
\<close>

theorem runtime_error_string_500:
  assumes "interp rt (rawget (globals L) (LString ''handle_request''))
             [LTable (env_table ops conf cl pinfo url)] (globals L) = Some co"
    and "co_status co = LUA_ERRRUN \<or> co_status co = LUA_ERRMEM"
    and "is_string (co_value co) \<or> is_number (co_value co)"
  shows "\<exists>pinfo' L' rest.
           lua_main rt ops conf errstr cl pinfo url L = Some (0, pinfo', L')
         \<and> out L' = out L @ co_stdout co @ ''Status: 500 Internal Server Error'' @ rest"
proof -
  from assms(3) have str: "tostring rt (co_value co) \<noteq> None"
    by (cases "co_value co") simp_all
  from assms(1) have cb: "interp rt (rawget (globals L) (LString UH_LUA_CB))
             [LTable (env_table ops conf cl pinfo url)] (globals L) = Some co"
    by (simp add: UH_LUA_CB_def)
  show ?thesis
    unfolding lua_main_closed [OF cb] using assms(2) str
    by (auto simp: error_500_text simp del: c_printf.simps)
qed

theorem runtime_error_string_500_witness:
  "\<exists>pinfo' L' rest.
     lua_main (demo_rt LUA_ERRRUN (LString ''attempt to index a nil value'')) demo_ops demo_conf
       ''Success'' demo_client demo_pinfo ''/lua/status''
       (demo_started LUA_ERRRUN (LString ''attempt to index a nil value''))
       = Some (0, pinfo', L')
     \<and> out L' = ''Status: 500 Internal Server Error'' @ rest"
proof -
  let ?v = "LString ''attempt to index a nil value''"
  let ?L = "demo_started LUA_ERRRUN ?v"
  have cb: "interp (demo_rt LUA_ERRRUN ?v) (rawget (globals ?L) (LString ''handle_request''))
      [LTable (env_table demo_ops demo_conf demo_client demo_pinfo ''/lua/status'')] (globals ?L)
      = Some \<lparr>co_status = LUA_ERRRUN, co_results = [], co_value = ?v,
               co_globals = globals ?L, co_stdout = []\<rparr>"
    using demo_interp_handler [of LUA_ERRRUN ?v] by (simp add: UH_LUA_CB_def)
  from runtime_error_string_500 [OF cb, of "''Success''"]
  obtain pinfo' L' rest where
    "lua_main (demo_rt LUA_ERRRUN ?v) demo_ops demo_conf ''Success'' demo_client demo_pinfo
       ''/lua/status'' ?L = Some (0, pinfo', L')"
    "out L' = out ?L @ [] @ ''Status: 500 Internal Server Error'' @ rest"
    by auto
  moreover have "out ?L = []" by (simp add: demo_started_eval)
  ultimately show ?thesis by auto
qed

text \<open>
  When \<^verbatim>\<open>lua_plugin_init\<close> returns, it returns 0 and has registered one handler, made of
  \<^verbatim>\<open>check_lua_url\<close> and \<^verbatim>\<open>lua_handle_request\<close>. \<^verbatim>\<open>lua_main\<close> ends the process whenever the
  callback returns to it, after exactly one protected call, with status 0 or with the
  \<^verbatim>\<open>EXIT_FAILURE\<close> of the panic handler, and calls nothing of the host.
\<close>

theorem one_shot_dispatch:
  "(\<forall>r P'. lua_plugin_init rt ops conf P = Some (Inr (r, P')) \<longrightarrow>
       r = 0
       \<and> host_log P' = host_log P
           @ [Host_dispatch_add \<lparr>check_url = Some Fn_check_lua_url,
                                  handle_request = Some Fn_lua_handle_request\<rparr>])
   \<and> (\<forall>st pinfo' L'. lua_main rt ops conf errstr cl pinfo url L = Some (st, pinfo', L') \<longrightarrow>
         length (filter is_pcall (drop (length (api_log L)) (api_log L'))) = 1
         \<and> (st = 0 \<or> st = EXIT_FAILURE)
         \<and> host_log L' = host_log L)
   \<and> ((\<exists>r. lua_main rt ops conf errstr cl pinfo url L = Some r) \<longleftrightarrow>
        (\<exists>co. interp rt (rawget (globals L) (LString ''handle_request''))
                 [LTable (env_table ops conf cl pinfo url)] (globals L) = Some co))"
proof (intro conjI allI impI)
  fix r P'
  assume "lua_plugin_init rt ops conf P = Some (Inr (r, P'))"
  then show "r = 0" and "host_log P' = host_log P
           @ [Host_dispatch_add \<lparr>check_url = Some Fn_check_lua_url,
                                  handle_request = Some Fn_lua_handle_request\<rparr>]"
    unfolding lua_plugin_init_def uh_lua_state_init_closed
    by (auto simp: Let_def host_called_def lua_dispatch_def split: if_splits option.splits)
next
  fix st pinfo' L'
  assume run: "lua_main rt ops conf errstr cl pinfo url L = Some (st, pinfo', L')"
  have np: "filter is_pcall (env_calls ops conf cl pinfo url) = []"
  proof -
    have "filter is_pcall (vars_calls vars) = []" for vars
      by (induction vars rule: vars_calls.induct) simp_all
    then show ?thesis by (simp add: env_calls_def path_info_calls_def)
  qed
  from lua_main_log [OF run] np
  show "length (filter is_pcall (drop (length (api_log L)) (api_log L'))) = 1"
    by simp
  show "st = 0 \<or> st = EXIT_FAILURE"
  proof (cases "interp rt (rawget (globals L) (LString UH_LUA_CB))
     [LTable (env_table ops conf cl pinfo url)] (globals L)")
    case None
    with run show ?thesis by (simp add: lua_main_no_return)
  next
    case (Some co)
    from run show ?thesis unfolding lua_main_closed [OF Some] by (auto split: if_splits)
  qed
  show "host_log L' = host_log L"
  proof (cases "interp rt (rawget (globals L) (LString UH_LUA_CB))
     [LTable (env_table ops conf cl pinfo url)] (globals L)")
    case None
    with run show ?thesis by (simp add: lua_main_no_return)
  next
    case (Some co)
    from run show ?thesis unfolding lua_main_closed [OF Some] by auto
  qed
next
  show "(\<exists>r. lua_main rt ops conf errstr cl pinfo url L = Some r) \<longleftrightarrow>
        (\<exists>co. interp rt (rawget (globals L) (LString ''handle_request''))
                 [LTable (env_table ops conf cl pinfo url)] (globals L) = Some co)"
    using lua_main_returns_iff [of rt ops conf errstr cl pinfo url L]
    by (auto simp: UH_LUA_CB_def)
qed

theorem one_shot_dispatch_witness:
  "host_log (demo_started 0 LNil) = [Host_dispatch_add lua_dispatch]
   \<and> (\<exists>st pinfo' L'.
         lua_main (demo_rt 0 LNil) demo_ops demo_conf ''Success'' demo_client demo_pinfo
           ''/lua/status'' (demo_started 0 LNil) = Some (st, pinfo', L')
         \<and> length (filter is_pcall (drop (length (api_log (demo_started 0 LNil))) (api_log L'))) = 1
         \<and> st = 0)"
proof -
  let ?L = "demo_started 0 LNil"
  note inst = one_shot_dispatch [where rt = "demo_rt 0 LNil" and ops = demo_ops
      and conf = demo_conf and errstr = "''Success''" and cl = demo_client
      and pinfo = demo_pinfo and url = "''/lua/status''" and L = ?L and P = demo_process]
  have "\<exists>r. lua_main (demo_rt 0 LNil) demo_ops demo_conf ''Success'' demo_client demo_pinfo
           ''/lua/status'' ?L = Some (0, r)"
    unfolding lua_main_closed [OF demo_interp_handler]
    by (simp add: LUA_ERRMEM_def LUA_ERRRUN_def)
  then obtain pinfo' L' where
    run: "lua_main (demo_rt 0 LNil) demo_ops demo_conf ''Success'' demo_client demo_pinfo
           ''/lua/status'' ?L = Some (0, pinfo', L')"
    by auto
  have "length (filter is_pcall (drop (length (api_log ?L)) (api_log L'))) = 1"
    using inst [THEN conjunct2, THEN conjunct1, rule_format, OF run] by blast
  moreover have "host_log ?L = [Host_dispatch_add lua_dispatch]"
    by (simp add: demo_started_eval)
  ultimately show ?thesis using run by blast
qed

end
